theory Spec2Isabelle
  imports Main "HOL-Library.List_Lexorder" "HOL-Library.Char_ord"
begin

section \<open>JavaScript values and errors\<close>

text \<open>
  A value of TypeScript type \<open>unknown\<close> is \<open>undefined\<close>, \<open>null\<close> or a proper value.
  The operator \<open>a ?? b\<close> yields \<open>b\<close> exactly when \<open>a\<close> is \<open>undefined\<close> or \<open>null\<close>.
\<close>

datatype 'a jsval = Undefined | Null | Val 'a

fun nullish :: "'a jsval \<Rightarrow> 'a jsval \<Rightarrow> 'a jsval" where
  "nullish Undefined b = b"
| "nullish Null b = b"
| "nullish (Val a) b = Val a"

text \<open>
  An \<open>Error\<close> object (src/errors.ts): its \<open>name\<close>, the \<open>code\<close> that a
  \<open>QueryFlowError\<close> adds (absent on a plain \<open>Error\<close>), and its \<open>message\<close>.
\<close>

datatype js_error = JsError (err_name: string) (err_code: "string option") (err_message: string)

definition Error_new :: "string \<Rightarrow> js_error" where
  "Error_new msg = JsError ''Error'' None msg"

definition QueryFlowError :: "string \<Rightarrow> string \<Rightarrow> js_error" where
  "QueryFlowError c msg = JsError ''QueryFlowError'' (Some c) msg"

definition CacheError :: "string \<Rightarrow> js_error" where
  "CacheError msg = JsError ''CacheError'' (Some ''CACHE_ERROR'') msg"

section \<open>Lifecycle state machine (core/state-machine.ts)\<close>

datatype State = Idle | Loading | Success | Error | Stale

fun State_name :: "State \<Rightarrow> string" where
  "State_name Idle = ''idle''"
| "State_name Loading = ''loading''"
| "State_name Success = ''success''"
| "State_name Error = ''error''"
| "State_name Stale = ''stale''"

record 'a StateSnapshot =
  snap_state :: State
  snap_data :: "'a jsval"
  snap_error :: "js_error jsval"
  snap_timestamp :: int

text \<open>
  The fields of class \<open>StateMachine\<close>. A listener is a function that is called with the
  snapshot, acts on a world \<open>'w\<close> outside the machine and may throw (\<open>Some\<close> error). The
  set \<open>listeners\<close> is the list of its members in insertion order, each with a number that
  stands for the identity of the function object. A listener that calls back into the
  machine it listens to is not modelled.
\<close>

type_synonym ('a, 'w) listener = "'a StateSnapshot \<Rightarrow> 'w \<Rightarrow> js_error option \<times> 'w"

record ('a, 'w) StateMachine =
  state :: State
  data :: "'a jsval"
  error :: "js_error jsval"
  history :: "'a StateSnapshot list"
  listeners :: "(nat \<times> ('a, 'w) listener) list"

definition StateMachine_new :: "('a, 'w) StateMachine" where
  "StateMachine_new =
     \<lparr>state = Idle, data = Undefined, error = Null, history = [], listeners = []\<rparr>"

definition subscribe :: "nat \<Rightarrow> ('a, 'w) listener \<Rightarrow> ('a, 'w) StateMachine \<Rightarrow> ('a, 'w) StateMachine" where
  "subscribe i l m =
     (if i \<in> set (map fst (listeners m)) then m else m\<lparr>listeners := listeners m @ [(i, l)]\<rparr>)"

definition unsubscribe :: "nat \<Rightarrow> ('a, 'w) StateMachine \<Rightarrow> ('a, 'w) StateMachine" where
  "unsubscribe i m = m\<lparr>listeners := filter (\<lambda>p. fst p \<noteq> i) (listeners m)\<rparr>"

fun valid :: "State \<Rightarrow> State list" where
  "valid Idle = [Loading]"
| "valid Loading = [Success, Error]"
| "valid Success = [Loading, Stale]"
| "valid Error = [Loading, Idle]"
| "valid Stale = [Loading]"

definition isValidTransition :: "State \<Rightarrow> State \<Rightarrow> bool" where
  "isValidTransition from to = (to \<in> set (valid from))"

text \<open>
  \<open>notify(snapshot)\<close>: the listeners are called in order; the first one that throws ends
  the loop, and its error leaves \<open>notify\<close>.
\<close>

fun notify :: "'a StateSnapshot \<Rightarrow> ('a, 'w) listener list \<Rightarrow> 'w \<Rightarrow> js_error option \<times> 'w" where
  "notify snapshot [] w = (None, w)"
| "notify snapshot (l # ls) w =
     (case l snapshot w of
        (Some err, w') \<Rightarrow> (Some err, w')
      | (None, w') \<Rightarrow> notify snapshot ls w')"

text \<open>
  \<open>transition(newState, data?, error?)\<close> at clock reading \<open>now\<close> (\<open>Date.now()\<close>).
  An omitted argument is \<open>Undefined\<close>. The result is what the call throws (\<open>Inl\<close>)
  or returns (\<open>Inr\<close>), the machine after the call and the world after the listeners.
  \<open>record_transition\<close> is the part of the method between the validity check and
  \<open>this.notify(snapshot)\<close>: the three assignments, the snapshot and \<open>history.push\<close>.
  Nothing guards the call of \<open>notify\<close>: an error thrown by a listener leaves
  \<open>transition\<close> after the machine has changed.
\<close>

definition record_transition ::
  "int \<Rightarrow> State \<Rightarrow> 'a jsval \<Rightarrow> js_error jsval \<Rightarrow> ('a, 'w) StateMachine
     \<Rightarrow> 'a StateSnapshot \<times> ('a, 'w) StateMachine" where
  "record_transition now newState d e m =
     (let m1 = m\<lparr>state := newState, data := nullish d (data m), error := nullish e Null\<rparr>;
          snapshot = \<lparr>snap_state = state m1, snap_data = data m1, snap_error = error m1,
                      snap_timestamp = now\<rparr>
      in (snapshot, m1\<lparr>history := history m1 @ [snapshot]\<rparr>))"

definition invalid_transition :: "State \<Rightarrow> State \<Rightarrow> js_error" where
  "invalid_transition from to =
     Error_new (''Invalid state transition: '' @ State_name from @ '' -> '' @ State_name to)"

definition transition ::
  "int \<Rightarrow> State \<Rightarrow> 'a jsval \<Rightarrow> js_error jsval \<Rightarrow> ('a, 'w) StateMachine \<Rightarrow> 'w
     \<Rightarrow> (js_error + 'a StateSnapshot) \<times> ('a, 'w) StateMachine \<times> 'w" where
  "transition now newState d e m w =
     (if \<not> isValidTransition (state m) newState then
        (Inl (invalid_transition (state m) newState), m, w)
      else
        let (snapshot, m2) = record_transition now newState d e m;
            (thrown, w') = notify snapshot (map snd (listeners m2)) w
        in case thrown of
             Some err \<Rightarrow> (Inl err, m2, w')
           | None \<Rightarrow> (Inr snapshot, m2, w'))"

definition reset :: "('a, 'w) StateMachine \<Rightarrow> ('a, 'w) StateMachine" where
  "reset m = m\<lparr>state := Idle, data := Undefined, error := Null, history := []\<rparr>"

text \<open>
  A caller's use of one machine: a sequence of calls, where a call that throws is caught
  by the caller and the next call goes on with the machine and the world as the failed
  call left them.
\<close>

datatype ('a, 'w) sm_call =
    Call_transition int State "'a jsval" "js_error jsval"
  | Call_reset
  | Call_subscribe nat "('a, 'w) listener"
  | Call_unsubscribe nat

fun sm_apply :: "('a, 'w) sm_call \<Rightarrow> ('a, 'w) StateMachine \<times> 'w \<Rightarrow> ('a, 'w) StateMachine \<times> 'w" where
  "sm_apply (Call_transition now s d e) (m, w) = snd (transition now s d e m w)"
| "sm_apply Call_reset (m, w) = (reset m, w)"
| "sm_apply (Call_subscribe i l) (m, w) = (subscribe i l m, w)"
| "sm_apply (Call_unsubscribe i) (m, w) = (unsubscribe i m, w)"

fun sm_run :: "('a, 'w) sm_call list \<Rightarrow> ('a, 'w) StateMachine \<times> 'w \<Rightarrow> ('a, 'w) StateMachine \<times> 'w" where
  "sm_run [] mw = mw"
| "sm_run (c # cs) mw = sm_run cs (sm_apply c mw)"

text \<open>The phases \<open>qs\<close>, entered one after the other from phase \<open>p\<close>, follow the table.\<close>

fun follows_table :: "State \<Rightarrow> State list \<Rightarrow> bool" where
  "follows_table p [] = True"
| "follows_table p (q # qs) = (isValidTransition p q \<and> follows_table q qs)"

definition transition_table :: "(State \<times> State) set" where
  "transition_table =
     {(Idle, Loading), (Loading, Success), (Loading, Error), (Success, Loading),
      (Success, Stale), (Error, Loading), (Error, Idle), (Stale, Loading)}"

text \<open>A listener that throws, and a fresh machine to which it has subscribed.\<close>

definition failing_listener :: "('a, unit) listener" where
  "failing_listener snapshot w = (Some (Error_new ''listener failed''), w)"

definition watched_machine :: "(nat, unit) StateMachine" where
  "watched_machine = subscribe 0 failing_listener StateMachine_new"

section \<open>Properties of the state machine\<close>

lemma isValidTransition_table: "isValidTransition p q \<longleftrightarrow> (p, q) \<in> transition_table"
  by (cases p; cases q) (simp_all add: isValidTransition_def transition_table_def)

lemma follows_table_snoc:
  "follows_table p (qs @ [q]) = (follows_table p qs \<and> isValidTransition (last (p # qs)) q)"
  by (induction qs arbitrary: p) auto

definition sm_inv :: "('a, 'w) StateMachine \<Rightarrow> bool" where
  "sm_inv m = (follows_table Idle (map snap_state (history m)) \<and>
               state m = last (Idle # map snap_state (history m)))"

lemma sm_inv_new: "sm_inv StateMachine_new"
  by (simp add: sm_inv_def StateMachine_new_def)

lemma sm_inv_transition: "sm_inv m \<Longrightarrow> sm_inv (fst (snd (transition now s d e m w)))"
  by (simp add: sm_inv_def transition_def record_transition_def Let_def follows_table_snoc
      split: prod.splits option.splits)

lemma sm_inv_apply: "sm_inv (fst mw) \<Longrightarrow> sm_inv (fst (sm_apply c mw))"
proof (cases mw)
  case (Pair m w)
  show "sm_inv (fst mw) \<Longrightarrow> sm_inv (fst (sm_apply c mw))"
  proof (cases c)
    case (Call_transition now s d e)
    with Pair show "sm_inv (fst mw) \<Longrightarrow> sm_inv (fst (sm_apply c mw))"
      by (simp add: sm_inv_transition)
  next
    case Call_reset
    with Pair show "sm_inv (fst mw) \<Longrightarrow> sm_inv (fst (sm_apply c mw))"
      by (simp add: sm_inv_def reset_def)
  next
    case (Call_subscribe i l)
    with Pair show "sm_inv (fst mw) \<Longrightarrow> sm_inv (fst (sm_apply c mw))"
      by (simp add: sm_inv_def subscribe_def)
  next
    case (Call_unsubscribe i)
    with Pair show "sm_inv (fst mw) \<Longrightarrow> sm_inv (fst (sm_apply c mw))"
      by (simp add: sm_inv_def unsubscribe_def)
  qed
qed

lemma sm_inv_run: "sm_inv (fst mw) \<Longrightarrow> sm_inv (fst (sm_run cs mw))"
  by (induction cs arbitrary: mw) (simp_all add: sm_inv_apply)

lemma transition_valid:
  assumes "isValidTransition (state m) to"
  shows "transition now to d e m w =
     (case fst (notify \<lparr>snap_state = to, snap_data = nullish d (data m),
                        snap_error = nullish e Null, snap_timestamp = now\<rparr>
                  (map snd (listeners m)) w) of
        None \<Rightarrow> Inr \<lparr>snap_state = to, snap_data = nullish d (data m),
                      snap_error = nullish e Null, snap_timestamp = now\<rparr>
      | Some err \<Rightarrow> Inl err,
      m\<lparr>state := to, data := nullish d (data m), error := nullish e Null,
        history := history m @
          [\<lparr>snap_state = to, snap_data = nullish d (data m), snap_error = nullish e Null,
             snap_timestamp = now\<rparr>]\<rparr>,
      snd (notify \<lparr>snap_state = to, snap_data = nullish d (data m),
                    snap_error = nullish e Null, snap_timestamp = now\<rparr>
             (map snd (listeners m)) w))"
proof -
  obtain thrown w' where n: "notify \<lparr>snap_state = to, snap_data = nullish d (data m),
                    snap_error = nullish e Null, snap_timestamp = now\<rparr>
             (map snd (listeners m)) w = (thrown, w')"
    by (cases "notify \<lparr>snap_state = to, snap_data = nullish d (data m),
                    snap_error = nullish e Null, snap_timestamp = now\<rparr>
             (map snd (listeners m)) w")
  show ?thesis
    using assms n by (cases thrown) (simp_all add: transition_def record_transition_def Let_def)
qed

lemma transition_invalid:
  assumes "\<not> isValidTransition (state m) to"
  shows "transition now to d e m w = (Inl (invalid_transition (state m) to), m, w)"
  using assms by (simp add: transition_def)

text \<open>
  Claim C2, as the code has it. In any machine \<open>m\<close>, a call of \<open>transition\<close> for a pair
  (current phase, \<open>to\<close>) outside the table idle-loading, loading-success, loading-error,
  success-loading, success-stale, error-loading, error-idle, stale-loading throws the
  error "Invalid state transition: from -> to", calls no listener and leaves the whole
  machine (phase, data, error, history) as it was. A call for a pair inside the table
  stores the new phase and the merged data and error and appends their snapshot to the
  history; then the listeners are called, and the call returns the snapshot unless a
  listener throws, whose error it then throws with the machine already changed. So the
  call returns exactly when the pair is in the table and no listener throws. After any
  sequence of calls on a fresh machine (failed calls included), the phases of the recorded
  snapshots, read in order from \<open>idle\<close>, are each the target of a step of the table, and
  the current phase is the last recorded one.
\<close>

theorem transition_follows_table:
  "transition now to d e m w =
     (if (state m, to) \<in> transition_table then
        (case fst (notify \<lparr>snap_state = to, snap_data = nullish d (data m),
                           snap_error = nullish e Null, snap_timestamp = now\<rparr>
                     (map snd (listeners m)) w) of
           None \<Rightarrow> Inr \<lparr>snap_state = to, snap_data = nullish d (data m),
                         snap_error = nullish e Null, snap_timestamp = now\<rparr>
         | Some err \<Rightarrow> Inl err,
         m\<lparr>state := to, data := nullish d (data m), error := nullish e Null,
           history := history m @
             [\<lparr>snap_state = to, snap_data = nullish d (data m), snap_error = nullish e Null,
                snap_timestamp = now\<rparr>]\<rparr>,
         snd (notify \<lparr>snap_state = to, snap_data = nullish d (data m),
                       snap_error = nullish e Null, snap_timestamp = now\<rparr>
                (map snd (listeners m)) w))
      else
        (Inl (Error_new (''Invalid state transition: '' @ State_name (state m) @ '' -> ''
                          @ State_name to)), m, w))
   \<and> (\<exists>s. fst (transition now to d e m w) = Inr s) =
       ((state m, to) \<in> transition_table
        \<and> fst (notify \<lparr>snap_state = to, snap_data = nullish d (data m),
                         snap_error = nullish e Null, snap_timestamp = now\<rparr>
                  (map snd (listeners m)) w) = None)
   \<and> follows_table Idle
        (map snap_state (history (fst (sm_run cs (StateMachine_new :: ('a, 'w) StateMachine, w)))))
   \<and> state (fst (sm_run cs (StateMachine_new :: ('a, 'w) StateMachine, w))) =
       last (Idle # map snap_state
                      (history (fst (sm_run cs (StateMachine_new :: ('a, 'w) StateMachine, w)))))"
proof -
  let ?s = "\<lparr>snap_state = to, snap_data = nullish d (data m), snap_error = nullish e Null,
             snap_timestamp = now\<rparr>"
  have "sm_inv (fst (sm_run cs (StateMachine_new :: ('a, 'w) StateMachine, w)))"
    by (rule sm_inv_run) (simp add: sm_inv_new)
  then have inv: "follows_table Idle
        (map snap_state (history (fst (sm_run cs (StateMachine_new :: ('a, 'w) StateMachine, w)))))"
    "state (fst (sm_run cs (StateMachine_new :: ('a, 'w) StateMachine, w))) =
       last (Idle # map snap_state
                      (history (fst (sm_run cs (StateMachine_new :: ('a, 'w) StateMachine, w)))))"
    by (simp_all add: sm_inv_def)
  have eq: "transition now to d e m w =
     (if (state m, to) \<in> transition_table then
        (case fst (notify ?s (map snd (listeners m)) w) of None \<Rightarrow> Inr ?s | Some err \<Rightarrow> Inl err,
         m\<lparr>state := to, data := nullish d (data m), error := nullish e Null,
           history := history m @ [?s]\<rparr>,
         snd (notify ?s (map snd (listeners m)) w))
      else
        (Inl (Error_new (''Invalid state transition: '' @ State_name (state m) @ '' -> ''
                          @ State_name to)), m, w))"
  proof (cases "isValidTransition (state m) to")
    case True
    then show ?thesis
      using transition_valid [OF True, of now d e w] by (simp add: isValidTransition_table)
  next
    case False
    then show ?thesis
      using transition_invalid [OF False, of now d e w]
      by (simp add: isValidTransition_table invalid_transition_def)
  qed
  have fails: "(\<exists>s. fst (transition now to d e m w) = Inr s) =
       ((state m, to) \<in> transition_table \<and> fst (notify ?s (map snd (listeners m)) w) = None)"
    by (simp add: eq split: option.splits)
  from eq fails inv show ?thesis by blast
qed

text \<open>
  The claim as it was stated fails where a listener throws: on the machine with the
  throwing listener the pair idle-loading is in the table, yet the call throws, and it
  throws after the phase and the history have changed.
\<close>

theorem transition_listener_counterexample:
  "(state watched_machine, Loading) \<in> transition_table
   \<and> fst (transition 1 Loading Undefined Undefined watched_machine ())
       = Inl (Error_new ''listener failed'')
   \<and> state (fst (snd (transition 1 Loading Undefined Undefined watched_machine ()))) = Loading
   \<and> length (history (fst (snd (transition 1 Loading Undefined Undefined watched_machine ())))) = 1"
  by (simp add: watched_machine_def subscribe_def StateMachine_new_def failing_listener_def
      transition_table_def transition_def isValidTransition_def record_transition_def Let_def)

text \<open>
  Claim C10. On a transition that the table allows, a call that omits the error argument
  stores the error \<open>null\<close>, whatever error was stored before, and a call that omits
  the data argument keeps the data stored before; the snapshot appended to the history
  carries exactly the stored data and error, and it is the snapshot returned, which the
  call does return unless a listener throws.
\<close>

theorem transition_merges_arguments:
  assumes "isValidTransition (state m) to"
  shows "(\<exists>s. last (history (fst (snd (transition now to d Undefined m w)))) = s
              \<and> history (fst (snd (transition now to d Undefined m w))) = history m @ [s]
              \<and> snap_error s = Null
              \<and> error (fst (snd (transition now to d Undefined m w))) = Null
              \<and> snap_data s = data (fst (snd (transition now to d Undefined m w)))
              \<and> fst (transition now to d Undefined m w) =
                  (case fst (notify s (map snd (listeners m)) w) of
                     None \<Rightarrow> Inr s | Some err \<Rightarrow> Inl err))
       \<and> (\<exists>s. last (history (fst (snd (transition now to Undefined e m w)))) = s
              \<and> history (fst (snd (transition now to Undefined e m w))) = history m @ [s]
              \<and> snap_data s = data m
              \<and> data (fst (snd (transition now to Undefined e m w))) = data m
              \<and> snap_error s = error (fst (snd (transition now to Undefined e m w)))
              \<and> fst (transition now to Undefined e m w) =
                  (case fst (notify s (map snd (listeners m)) w) of
                     None \<Rightarrow> Inr s | Some err \<Rightarrow> Inl err))"
  by (simp add: transition_valid [OF assms] split: option.splits)

theorem transition_merges_arguments_witness:
  "isValidTransition
     (state (\<lparr>state = Error, data = Val (7::nat), error = Val (Error_new ''boom''), history = [],
              listeners = []\<rparr> :: (nat, unit) StateMachine)) Loading
   \<and> (\<exists>s. fst (transition 5 Loading Undefined Undefined
                 (\<lparr>state = Error, data = Val (7::nat), error = Val (Error_new ''boom''),
                   history = [], listeners = []\<rparr> :: (nat, unit) StateMachine) ()) = Inr s
          \<and> snap_error s = Null \<and> snap_data s = Val 7)"
  using transition_merges_arguments
    [of "\<lparr>state = Error, data = Val (7::nat), error = Val (Error_new ''boom''), history = [],
          listeners = []\<rparr> :: (nat, unit) StateMachine" Loading 5 Undefined "()" Undefined]
  by (simp add: isValidTransition_def)

section \<open>Cache keys (core/url-parser.ts)\<close>

text \<open>
  A parameter value is a string, a number or (among search parameters) a boolean. The
  code applies two operations to a parameter value: \<open>String(v)\<close> and the comparison
  \<open>===\<close> with a string or \<open>undefined\<close>, which is false for every number. So a number is
  represented by the text that \<open>String\<close> gives for it (\<open>PNum ''123''\<close>, \<open>PNum ''1.5''\<close>,
  \<open>PNum ''1e+21''\<close>), which is exact for every JavaScript number. A parameter object
  \<open>Record<string, ...>\<close> is the list of its entries in the order of \<open>Object.entries\<close>,
  with pairwise different names.
\<close>

datatype pval = PStr string | PNum string | PBool bool

text \<open>The decimal text of an integer (an HTTP status, a timeout in milliseconds).\<close>

fun show_nat :: "nat \<Rightarrow> string" where
  "show_nat n = (if n < 10 then [''0123456789'' ! n] else show_nat (n div 10) @ [''0123456789'' ! (n mod 10)])"

declare show_nat.simps [simp del]

definition show_int :: "int \<Rightarrow> string" where
  "show_int i = (if i < 0 then ''-'' @ show_nat (nat (- i)) else show_nat (nat i))"

fun String :: "pval \<Rightarrow> string" where
  "String (PStr s) = s"
| "String (PNum t) = t"
| "String (PBool b) = (if b then ''true'' else ''false'')"

fun join :: "string \<Rightarrow> string list \<Rightarrow> string" where
  "join sep [] = []"
| "join sep [x] = x"
| "join sep (x # y # ys) = x @ sep @ join sep (y # ys)"

text \<open>
  \<open>entries.sort(([a], [b]) => a.localeCompare(b))\<close>. \<open>Array.prototype.sort\<close> is stable:
  entries that compare as 0 keep their order. It is modelled by insertion sort, where an
  entry goes before the first entry that does not compare below it. The comparison
  \<open>String.prototype.localeCompare\<close> belongs to the platform and depends on its locale; it
  is the parameter \<open>cmp\<close> (\<open>localeCompare\<close>) of the functions that sort.
\<close>

fun insert_entry :: "(string \<Rightarrow> string \<Rightarrow> int) \<Rightarrow> string \<times> 'v \<Rightarrow> (string \<times> 'v) list \<Rightarrow> (string \<times> 'v) list" where
  "insert_entry cmp x [] = [x]"
| "insert_entry cmp x (y # ys) =
     (if cmp (fst x) (fst y) \<le> 0 then x # y # ys else y # insert_entry cmp x ys)"

definition sort_entries :: "(string \<Rightarrow> string \<Rightarrow> int) \<Rightarrow> (string \<times> 'v) list \<Rightarrow> (string \<times> 'v) list" where
  "sort_entries cmp xs = foldr (insert_entry cmp) xs []"

text \<open>
  \<open>generateCacheKey(url, params)\<close>. Its test \<open>params ? ... : url\<close> always takes the
  first branch, an object being truthy.
\<close>

definition generateCacheKey :: "(string \<Rightarrow> string \<Rightarrow> int) \<Rightarrow> string \<Rightarrow> (string \<times> pval) list \<Rightarrow> string" where
  "generateCacheKey localeCompare url params =
     (let sortedParams = join '','' (map (\<lambda>(k, v). k @ '':'' @ String v) (sort_entries localeCompare params))
      in url @ ''|'' @ sortedParams)"

text \<open>
  One comparison to instantiate \<open>localeCompare\<close> with: the order of strings by their code
  units. \<open>orders_names cmp K\<close> says that \<open>cmp\<close> orders the names in \<open>K\<close> linearly: any two
  are comparable, only equal names compare both ways, and the comparison is transitive.
\<close>

definition code_unit_compare :: "string \<Rightarrow> string \<Rightarrow> int" where
  "code_unit_compare a b = (if a < b then - 1 else if a = b then 0 else 1)"



















section \<open>Cache manager (plugins/core/cache-manager.ts)\<close>

subsection \<open>Strings and regular expressions\<close>

text \<open>
  \<open>s.startsWith(p)\<close>, \<open>s.includes(sub)\<close>, and the three regular expressions of the class,
  each written out as the scan it performs from left to right.
\<close>

definition startsWith :: "string \<Rightarrow> string \<Rightarrow> bool" where
  "startsWith s p = (take (length p) s = p)"

fun String_includes :: "string \<Rightarrow> string \<Rightarrow> bool" where
  "String_includes [] sub = (sub = [])"
| "String_includes (c # cs) sub = (startsWith (c # cs) sub \<or> String_includes cs sub)"

text \<open>
  \<open>url.replace(/\/:[^/]+/g, '')\<close>: a slash, a colon and the longest run of one or more
  characters other than a slash are removed, and the scan goes on after the run.
\<close>

function strip_param_segments :: "string \<Rightarrow> string" where
  "strip_param_segments [] = []"
| "strip_param_segments (c # cs) =
     (if c = CHR ''/'' \<and> (case cs of d # e # _ \<Rightarrow> d = CHR '':'' \<and> e \<noteq> CHR ''/'' | _ \<Rightarrow> False)
      then strip_param_segments (dropWhile (\<lambda>x. x \<noteq> CHR ''/'') (tl cs))
      else c # strip_param_segments cs)"
  by pat_completeness auto
termination
  by (relation "measure length") (auto simp: less_Suc_eq_le intro: le_trans [OF length_dropWhile_le])

text \<open>
  \<open>/:([a-zA-Z_][a-zA-Z0-9_]*)/g\<close> in \<open>extractParams\<close>: the names found, in order, which
  \<open>params.add\<close> collects in a \<open>Set\<close> (first occurrences, in insertion order).
\<close>

definition ident_start :: "char \<Rightarrow> bool" where
  "ident_start c = (c \<in> set ''abcdefghijklmnopqrstuvwxyzABCDEFGHIJKLMNOPQRSTUVWXYZ_'')"

definition ident_char :: "char \<Rightarrow> bool" where
  "ident_char c = (ident_start c \<or> c \<in> set ''0123456789'')"

function param_names :: "string \<Rightarrow> string list" where
  "param_names [] = []"
| "param_names (c # cs) =
     (if c = CHR '':'' \<and> (case cs of d # _ \<Rightarrow> ident_start d | [] \<Rightarrow> False)
      then takeWhile ident_char cs # param_names (dropWhile ident_char cs)
      else param_names cs)"
  by pat_completeness auto
termination
  by (relation "measure length") (auto simp: less_Suc_eq_le intro: le_trans [OF length_dropWhile_le])

definition Set_add :: "'k \<Rightarrow> 'k list \<Rightarrow> 'k list" where
  "Set_add x xs = (if x \<in> set xs then xs else xs @ [x])"

definition extractParams :: "string \<Rightarrow> string list" where
  "extractParams url = foldl (\<lambda>params name. Set_add name params) [] (param_names url)"

text \<open>
  \<open>url.match(new RegExp(`:${param}([^/]|$)`))\<close> in \<open>getParamValues\<close>: the first place
  where a colon and the name are followed by a character other than a slash, which
  is the value captured, or by the end of the string, where the empty string is captured.
\<close>

fun match_param :: "string \<Rightarrow> string \<Rightarrow> string option" where
  "match_param p [] = None"
| "match_param p (c # cs) =
     (if startsWith (c # cs) (CHR '':'' # p) then
        (case drop (length p) cs of
           [] \<Rightarrow> Some []
         | d # _ \<Rightarrow> if d \<noteq> CHR ''/'' then Some [d] else match_param p cs)
      else match_param p cs)"

subsection \<open>JavaScript Map\<close>

text \<open>
  A \<open>Map\<close> is the list of its entries in insertion order, with pairwise different keys:
  \<open>set\<close> on a key that is present replaces the value in place, and appends otherwise.
\<close>

definition Map_get :: "('k \<times> 'v) list \<Rightarrow> 'k \<Rightarrow> 'v option" where
  "Map_get m k = map_of m k"

fun Map_set :: "'k \<Rightarrow> 'v \<Rightarrow> ('k \<times> 'v) list \<Rightarrow> ('k \<times> 'v) list" where
  "Map_set k v [] = [(k, v)]"
| "Map_set k v (p # ps) = (if fst p = k then (k, v) # ps else p # Map_set k v ps)"

definition Map_delete :: "'k \<Rightarrow> ('k \<times> 'v) list \<Rightarrow> ('k \<times> 'v) list" where
  "Map_delete k m = filter (\<lambda>p. fst p \<noteq> k) m"

definition Map_has :: "('k \<times> 'v) list \<Rightarrow> 'k \<Rightarrow> bool" where
  "Map_has m k = (k \<in> set (map fst m))"

subsection \<open>Query options (types.ts)\<close>

text \<open>
  The fields of \<open>QueryOptions\<close> that the modelled code reads; an absent field is \<open>None\<close>.
  \<open>select\<close> and a \<open>placeholderData\<close> function may throw. The callbacks act on a world
  \<open>'w\<close> (for a query, the kernel) and may throw. A \<open>retryDelay\<close> function is kept as its
  source text, the only thing the modelled code uses of it.
\<close>

datatype retry_setting = Retry_number int | Retry_boolean bool

datatype retryDelay_setting = RetryDelay_number int | RetryDelay_function string

datatype 'a placeholder = Placeholder_value "'a jsval" | Placeholder_function "js_error + 'a jsval"

record ('a, 'w) QueryOptions =
  params :: "(string \<times> pval) list option"
  searchParams :: "(string \<times> pval) list option"
  staleTime :: "int option"
  cacheTime :: "int option"
  retry :: "retry_setting option"
  retryDelay :: "retryDelay_setting option"
  enabled :: "bool option"
  select :: "('a jsval \<Rightarrow> js_error + 'a jsval) option"
  placeholderData :: "'a placeholder option"
  onSuccess :: "('a jsval \<Rightarrow> 'w \<Rightarrow> js_error option \<times> 'w) option"
  onError :: "(js_error \<Rightarrow> 'w \<Rightarrow> js_error option \<times> 'w) option"
  onSettled :: "('a jsval \<Rightarrow> js_error jsval \<Rightarrow> 'w \<Rightarrow> js_error option \<times> 'w) option"

definition no_options :: "('a, 'w) QueryOptions" where
  "no_options = \<lparr>params = None, searchParams = None, staleTime = None, cacheTime = None,
     retry = None, retryDelay = None, enabled = None, select = None, placeholderData = None,
     onSuccess = None, onError = None, onSettled = None\<rparr>"

subsection \<open>The cache manager\<close>

text \<open>
  The methods of class \<open>CacheManager\<close> carry the prefix \<open>cm_\<close> (\<open>cm_get\<close> is \<open>get\<close>, and
  so on). \<open>now\<close> is the reading of \<open>Date.now()\<close> during the call. A method that writes
  returns the manager after the call; \<open>cm_get\<close> returns the value read and the manager,
  \<open>cm_update\<close> what it throws or returns and the manager.
\<close>

record 'a CacheEntry =
  entry_data :: "'a jsval"
  entry_timestamp :: int
  entry_staleTime :: int
  entry_cacheTime :: int

record CacheMeta =
  meta_url :: string
  meta_params :: "(string \<times> pval) list"

record 'a CacheManager =
  cache :: "(string \<times> 'a CacheEntry) list"
  meta :: "(string \<times> CacheMeta) list"

definition CacheManager_new :: "'a CacheManager" where
  "CacheManager_new = \<lparr>cache = [], meta = []\<rparr>"

definition isStale :: "int \<Rightarrow> 'a CacheEntry \<Rightarrow> bool" where
  "isStale now entry = (now - entry_timestamp entry > entry_staleTime entry)"

definition cm_get :: "int \<Rightarrow> string \<Rightarrow> 'a CacheManager \<Rightarrow> 'a jsval \<times> 'a CacheManager" where
  "cm_get now key c =
     (case Map_get (cache c) key of
        None \<Rightarrow> (Undefined, c)
      | Some entry \<Rightarrow> if isStale now entry then (Undefined, c) else (entry_data entry, c))"

definition cm_set ::
  "int \<Rightarrow> string \<Rightarrow> 'a jsval \<Rightarrow> ('a, 'w) QueryOptions \<Rightarrow> 'a CacheManager \<Rightarrow> 'a CacheManager" where
  "cm_set now key d options c =
     (let staleTime' = (case staleTime options of None \<Rightarrow> 5000 | Some t \<Rightarrow> t);
          cacheTime' = (case cacheTime options of None \<Rightarrow> 300000 | Some t \<Rightarrow> t)
      in c\<lparr>cache := Map_set key
             \<lparr>entry_data = d, entry_timestamp = now, entry_staleTime = staleTime',
              entry_cacheTime = cacheTime'\<rparr> (cache c)\<rparr>)"

definition dquote :: char where
  "dquote = CHR 0x22"

text \<open>
  \<open>update(key, updater)\<close>. The updater is called with the stored data itself, not with a
  copy, so it can change that object in place before it returns or throws. \<open>updater d\<close>
  is what the call returns or throws, together with the state in which it leaves the
  object \<open>d\<close> it was given (\<open>d\<close> again for an updater that only reads its argument).
  When the updater throws, \<open>entry.data\<close> is not assigned: the entry holds the same
  object, in the state the updater left it in.
\<close>

definition cm_update ::
  "string \<Rightarrow> ('a jsval \<Rightarrow> (js_error + 'a jsval) \<times> 'a jsval) \<Rightarrow> 'a CacheManager
     \<Rightarrow> (js_error + unit) \<times> 'a CacheManager" where
  "cm_update key updater c =
     (case Map_get (cache c) key of
        None \<Rightarrow> (Inl (CacheError (''Cache entry '' @ [dquote] @ key @ [dquote] @ '' not found'')), c)
      | Some entry \<Rightarrow>
          (case updater (entry_data entry) of
             (Inl thrown, left) \<Rightarrow>
               (Inl (CacheError (''Failed to update cache entry '' @ [dquote] @ key @ [dquote])),
                c\<lparr>cache := Map_set key (entry\<lparr>entry_data := left\<rparr>) (cache c)\<rparr>)
           | (Inr d, left) \<Rightarrow>
               (Inr (), c\<lparr>cache := Map_set key (entry\<lparr>entry_data := d\<rparr>) (cache c)\<rparr>)))"

text \<open>
  \<open>invalidate(pattern)\<close>. For a string, the keys are tested against the regular
  expression made from the pattern with every \<open>*\<close> replaced by \<open>.*\<close>;
  \<open>RegExp_test regex key\<close> stands for \<open>new RegExp(regex).test(key)\<close>.
\<close>

datatype pattern = Pattern_string string | Pattern_array "string list"

definition star_to_regex :: "string \<Rightarrow> string" where
  "star_to_regex pattern = concat (map (\<lambda>c. if c = CHR ''*'' then ''.*'' else [c]) pattern)"

fun cm_invalidate ::
  "(string \<Rightarrow> string \<Rightarrow> bool) \<Rightarrow> pattern \<Rightarrow> 'a CacheManager \<Rightarrow> 'a CacheManager" where
  "cm_invalidate RegExp_test (Pattern_string pattern) c =
     (let regex = star_to_regex pattern
      in foldl (\<lambda>c key. if RegExp_test regex key
                          then c\<lparr>cache := Map_delete key (cache c), meta := Map_delete key (meta c)\<rparr>
                          else c)
           c (map fst (cache c)))"
| "cm_invalidate RegExp_test (Pattern_array pattern) c =
     (let key = join '':'' pattern
      in c\<lparr>cache := Map_delete key (cache c), meta := Map_delete key (meta c)\<rparr>)"

text \<open>
  \<open>params1Values.id === params2.id\<close>: a string or \<open>undefined\<close> against a string, a
  number or \<open>undefined\<close>.
\<close>

definition strict_equal :: "string option \<Rightarrow> pval option \<Rightarrow> bool" where
  "strict_equal a b =
     (case (a, b) of
        (None, None) \<Rightarrow> True
      | (Some s, Some (PStr t)) \<Rightarrow> s = t
      | _ \<Rightarrow> False)"

definition getParamValues :: "string \<Rightarrow> string list \<Rightarrow> (string \<times> string) list" where
  "getParamValues url names =
     foldl (\<lambda>values param. case match_param param url of
                               None \<Rightarrow> values
                             | Some v \<Rightarrow> Map_set param v values)
       [] names"

definition isRelated :: "string \<Rightarrow> string \<Rightarrow> (string \<times> pval) list \<Rightarrow> bool" where
  "isRelated url1 url2 params2 =
     (if url1 = url2 then False
      else
        let params1 = extractParams url1;
            params1Values = getParamValues url1 params1
        in if String_includes url1 ''/:id/'' \<and> String_includes url2 ''/:id/''
           then strict_equal (Map_get params1Values ''id'') (Map_get params2 ''id'')
           else if startsWith url1 (strip_param_segments url2) then True
           else if startsWith url2 (strip_param_segments url1) then True
           else False)"

definition cm_invalidateRelated :: "string \<Rightarrow> 'a CacheManager \<Rightarrow> 'a CacheManager" where
  "cm_invalidateRelated url c =
     (let relatedKeys = map fst (filter (\<lambda>(key, m). isRelated url (meta_url m) (meta_params m)) (meta c))
      in foldl (\<lambda>c key. c\<lparr>cache := Map_delete key (cache c), meta := Map_delete key (meta c)\<rparr>)
           c relatedKeys)"

definition cm_clear :: "'a CacheManager \<Rightarrow> 'a CacheManager" where
  "cm_clear c = c\<lparr>cache := [], meta := []\<rparr>"

definition cm_has :: "string \<Rightarrow> 'a CacheManager \<Rightarrow> bool" where
  "cm_has key c = Map_has (cache c) key"

definition cm_keys :: "'a CacheManager \<Rightarrow> string list" where
  "cm_keys c = map fst (cache c)"

definition cm_size :: "'a CacheManager \<Rightarrow> nat" where
  "cm_size c = length (cache c)"

definition cm_setMeta :: "string \<Rightarrow> CacheMeta \<Rightarrow> 'a CacheManager \<Rightarrow> 'a CacheManager" where
  "cm_setMeta key m c = c\<lparr>meta := Map_set key m (meta c)\<rparr>"

subsection \<open>Properties of the cache manager\<close>

lemma Map_get_set: "Map_get (Map_set k v m) k' = (if k' = k then Some v else Map_get m k')"
  by (induction m) (auto simp: Map_get_def)

lemma map_fst_Map_set_present: "k \<in> set (map fst m) \<Longrightarrow> map fst (Map_set k v m) = map fst m"
  by (induction m) auto

lemma Map_get_Some_key: "Map_get m k = Some v \<Longrightarrow> k \<in> set (map fst m)"
  unfolding Map_get_def by (metis map_of_eq_None_iff option.distinct(1) set_map)

lemma set_keys_Map_set: "set (map fst (Map_set k v m)) = insert k (set (map fst m))"
  by (induction m) auto

lemma Map_has_delete: "Map_has (Map_delete k m) k' = (k' \<noteq> k \<and> Map_has m k')"
  by (auto simp: Map_has_def Map_delete_def)

text \<open>
  Claim C4. \<open>get(key)\<close> at clock reading \<open>now\<close> returns the data of the stored entry
  unless the key is missing or \<open>now - timestamp > staleTime\<close>, in which cases it returns
  \<open>undefined\<close>. The read changes nothing: the manager after it is the manager before it,
  so a stale entry is still reported by \<open>has\<close>, \<open>keys\<close> and \<open>size\<close>; \<open>invalidate\<close> of the
  key removes it. After \<open>set\<close> at time \<open>t\<close> with \<open>staleTime = -1\<close>, a read at any time from
  \<open>t\<close> on returns \<open>undefined\<close> while the key is still stored; after \<open>set\<close> with
  \<open>staleTime = 10000\<close>, a read within 10000 ms returns the written value.
\<close>

theorem read_masks_stale_entries:
  "cm_get now key c =
     (case Map_get (cache c) key of
        None \<Rightarrow> (Undefined, c)
      | Some entry \<Rightarrow>
          (if now - entry_timestamp entry > entry_staleTime entry then Undefined
           else entry_data entry, c))
   \<and> snd (cm_get now key c) = c
   \<and> cm_has key (snd (cm_get now key c)) = cm_has key c
   \<and> cm_keys (snd (cm_get now key c)) = cm_keys c
   \<and> cm_size (snd (cm_get now key c)) = cm_size c
   \<and> \<not> cm_has key (cm_invalidate RegExp_test (Pattern_array [key]) c)
   \<and> (t \<le> now \<longrightarrow>
        fst (cm_get now key (cm_set t key v (options\<lparr>staleTime := Some (- 1)\<rparr>) c)) = Undefined
        \<and> cm_has key (snd (cm_get now key (cm_set t key v (options\<lparr>staleTime := Some (- 1)\<rparr>) c)))
        \<and> key \<in> set (cm_keys (snd (cm_get now key (cm_set t key v (options\<lparr>staleTime := Some (- 1)\<rparr>) c)))))
   \<and> (now - t \<le> 10000 \<longrightarrow>
        fst (cm_get now key (cm_set t key v (options\<lparr>staleTime := Some 10000\<rparr>) c)) = v)"
proof -
  have g: "snd (cm_get now key c) = c" for now key and c :: "'a CacheManager"
    by (simp add: cm_get_def split: option.splits)
  have 1: "cm_get now key c =
     (case Map_get (cache c) key of
        None \<Rightarrow> (Undefined, c)
      | Some entry \<Rightarrow>
          (if now - entry_timestamp entry > entry_staleTime entry then Undefined
           else entry_data entry, c))"
    by (simp add: cm_get_def isStale_def split: option.splits)
  have 2: "\<not> cm_has key (cm_invalidate RegExp_test (Pattern_array [key]) c)"
    by (simp add: cm_has_def Map_has_delete)
  have 3: "t \<le> now \<Longrightarrow>
        fst (cm_get now key (cm_set t key v (options\<lparr>staleTime := Some (- 1)\<rparr>) c)) = Undefined"
    by (simp add: cm_get_def cm_set_def Map_get_set isStale_def)
  have 4: "cm_has key (cm_set t key v (options\<lparr>staleTime := Some (- 1)\<rparr>) c)"
    by (simp add: cm_has_def cm_set_def Map_has_def set_keys_Map_set del: set_map)
  have 5: "now - t \<le> 10000 \<Longrightarrow>
        fst (cm_get now key (cm_set t key v (options\<lparr>staleTime := Some 10000\<rparr>) c)) = v"
    by (simp add: cm_get_def cm_set_def Map_get_set isStale_def)
  from 4 have 6: "key \<in> set (cm_keys (cm_set t key v (options\<lparr>staleTime := Some (- 1)\<rparr>) c))"
    by (simp add: cm_has_def cm_keys_def Map_has_def)
  show ?thesis
    unfolding g using 1 2 3 4 5 6 by blast
qed

theorem read_masks_stale_entries_witness:
  "(100::int) \<le> 100 \<and> (100::int) - 100 \<le> 10000
   \<and> fst (cm_get 100 ''k'' (cm_set 100 ''k'' (Val (1::nat))
            ((no_options :: (nat, unit) QueryOptions)\<lparr>staleTime := Some (- 1)\<rparr>) CacheManager_new)) = Undefined
   \<and> cm_keys (snd (cm_get 100 ''k'' (cm_set 100 ''k'' (Val (1::nat))
            ((no_options :: (nat, unit) QueryOptions)\<lparr>staleTime := Some (- 1)\<rparr>) CacheManager_new))) = [''k'']
   \<and> fst (cm_get 100 ''k'' (cm_set 100 ''k'' (Val (1::nat))
            ((no_options :: (nat, unit) QueryOptions)\<lparr>staleTime := Some 10000\<rparr>) CacheManager_new)) = Val 1"
  using read_masks_stale_entries
    [of 100 "''k''" "CacheManager_new :: nat CacheManager" "\<lambda>regex key. False" 100 "Val 1"
        "no_options :: (nat, unit) QueryOptions"]
  by (simp add: cm_keys_def cm_get_def cm_set_def CacheManager_new_def Map_get_def isStale_def)

subsection \<open>Update\<close>

definition not_found_message :: "string \<Rightarrow> string" where
  "not_found_message key = ''Cache entry '' @ [dquote] @ key @ [dquote] @ '' not found''"

definition update_failed_message :: "string \<Rightarrow> string" where
  "update_failed_message key = ''Failed to update cache entry '' @ [dquote] @ key @ [dquote]"

lemma Map_set_same: "Map_get m k = Some v \<Longrightarrow> Map_set k v m = m"
  by (induction m) (auto simp: Map_get_def split: if_splits)

text \<open>What holds of \<open>update\<close>: a missing key, and an updater that only reads its argument.\<close>

lemma update_missing_key:
  "Map_get (cache c) key = None \<Longrightarrow>
     cm_update key updater c = (Inl (CacheError (not_found_message key)), c)"
  by (simp add: cm_update_def not_found_message_def)

lemma update_reading_updater_throws:
  assumes "Map_get (cache c) key = Some entry"
    and "updater (entry_data entry) = (Inl thrown, entry_data entry)"
  shows "cm_update key updater c = (Inl (CacheError (update_failed_message key)), c)"
  using assms Map_set_same [OF assms(1)]
  by (simp add: cm_update_def update_failed_message_def)

lemma update_returns:
  assumes "Map_get (cache c) key = Some entry" and "updater (entry_data entry) = (Inr d, left)"
  shows "fst (cm_update key updater c) = Inr ()
       \<and> Map_get (cache (snd (cm_update key updater c))) key = Some (entry\<lparr>entry_data := d\<rparr>)
       \<and> cm_keys (snd (cm_update key updater c)) = cm_keys c"
  using assms map_fst_Map_set_present [OF Map_get_Some_key [OF assms(1)]]
  by (simp add: cm_update_def Map_get_set cm_keys_def)

text \<open>
  The cache holds 1 at the key k. The updater changes the object it is given to 2 and then
  throws, as \<open>d => { d.n = 2; throw new Error('boom') }\<close> does on the object \<open>{n: 1}\<close>.
\<close>

definition sample_cache :: "nat CacheManager" where
  "sample_cache = cm_set 0 ''k'' (Val 1) (no_options :: (nat, unit) QueryOptions) CacheManager_new"

definition change_then_throw :: "nat jsval \<Rightarrow> (js_error + nat jsval) \<times> nat jsval" where
  "change_then_throw d = (Inl (Error_new ''boom''), Val 2)"

text \<open>
  Claim C7 does not hold of the code. \<open>update\<close> with this updater throws
  \<open>CacheError('Failed to update cache entry "k"')\<close>, and afterwards the entry holds 2, not
  the value 1 it held before: nothing restores what the updater changed in place.
\<close>

theorem update_failure_keeps_change:
  "fst (cm_get 0 ''k'' sample_cache) = Val 1
   \<and> fst (cm_update ''k'' change_then_throw sample_cache)
       = Inl (CacheError (update_failed_message ''k''))
   \<and> fst (cm_get 0 ''k'' (snd (cm_update ''k'' change_then_throw sample_cache))) = Val 2"
  by (simp add: sample_cache_def cm_set_def CacheManager_new_def cm_get_def cm_update_def
      change_then_throw_def Map_get_def isStale_def no_options_def update_failed_message_def)

subsection \<open>Related-entry invalidation\<close>

lemma invalidateRelated_no_meta: "meta c = [] \<Longrightarrow> cm_invalidateRelated url c = c"
  by (simp add: cm_invalidateRelated_def)

text \<open>
  Claim C3 does not hold of the code. \<open>set\<close> never writes relationship metadata, and a manager
  without metadata is left unchanged by \<open>invalidateRelated\<close>: after the entries for
  /users/123 and /users/123/posts are written, \<open>invalidateRelated('/users/123')\<close> removes
  neither. Even when the metadata of the two templates is registered by hand with
  \<open>setMeta\<close>, only the /users/:id entry is removed and the /users/:id/posts entry stays.
\<close>

theorem invalidateRelated_after_set_keeps_all:
  "meta (cm_set t key d options c) = meta c
   \<and> cm_invalidateRelated url (c\<lparr>meta := []\<rparr>) = c\<lparr>meta := []\<rparr>
   \<and> cm_keys (cm_invalidateRelated ''/users/123''
        (cm_set t2 ''/users/123/posts'' d2 options2 (cm_set t1 ''/users/123'' d1 options1 CacheManager_new)))
      = [''/users/123'', ''/users/123/posts'']
   \<and> cm_keys (cm_invalidateRelated ''/users/123''
        (cm_setMeta ''posts'' \<lparr>meta_url = ''/users/:id/posts'', meta_params = [(''id'', PNum ''123'')]\<rparr>
          (cm_setMeta ''user'' \<lparr>meta_url = ''/users/:id'', meta_params = [(''id'', PNum ''123'')]\<rparr>
            (cm_set t2 ''posts'' d2 options2 (cm_set t1 ''user'' d1 options1 CacheManager_new)))))
      = [''posts'']"
proof -
  have 1: "meta (cm_set t key d options c) = meta c"
    by (simp add: cm_set_def)
  have 2: "cm_invalidateRelated url (c\<lparr>meta := []\<rparr>) = c\<lparr>meta := []\<rparr>"
    by (simp add: cm_invalidateRelated_def)
  have 3: "cm_keys (cm_invalidateRelated ''/users/123''
        (cm_set t2 ''/users/123/posts'' d2 options2 (cm_set t1 ''/users/123'' d1 options1 CacheManager_new)))
      = [''/users/123'', ''/users/123/posts'']"
    by (simp add: cm_invalidateRelated_def cm_set_def CacheManager_new_def cm_keys_def)
  have r1: "isRelated ''/users/123'' ''/users/:id'' [(''id'', PNum ''123'')]"
    by (simp add: isRelated_def startsWith_def)
  have r2: "\<not> isRelated ''/users/123'' ''/users/:id/posts'' [(''id'', PNum ''123'')]"
    by (simp add: isRelated_def startsWith_def)
  have 4: "cm_keys (cm_invalidateRelated ''/users/123''
        (cm_setMeta ''posts'' \<lparr>meta_url = ''/users/:id/posts'', meta_params = [(''id'', PNum ''123'')]\<rparr>
          (cm_setMeta ''user'' \<lparr>meta_url = ''/users/:id'', meta_params = [(''id'', PNum ''123'')]\<rparr>
            (cm_set t2 ''posts'' d2 options2 (cm_set t1 ''user'' d1 options1 CacheManager_new)))))
      = [''posts'']"
    using r1 r2
    by (simp add: cm_invalidateRelated_def cm_set_def cm_setMeta_def CacheManager_new_def cm_keys_def
        Map_delete_def)
  from 1 2 3 4 show ?thesis by blast
qed

section \<open>Request handler (plugins/core/request-handler.ts)\<close>

text \<open>
  \<open>net i\<close> is the outcome of the \<open>i\<close>-th call (from 0) of the global \<open>fetch\<close> made for one
  request: it rejects with an error or resolves with a response. The URL and the headers
  built for the call reach only \<open>fetch\<close> and are not modelled; numbers are integers.
  \<open>withRetry\<close> and \<open>execute\<close> return, with their result, the trace of calls of \<open>fn\<close> and
  of waits \<open>this.delay(ms)\<close>.
\<close>

definition NetworkError :: "string \<Rightarrow> js_error" where
  "NetworkError msg = JsError ''NetworkError'' (Some ''NETWORK_ERROR'') msg"

definition ValidationError :: "string \<Rightarrow> js_error" where
  "ValidationError msg = JsError ''ValidationError'' (Some ''VALIDATION_ERROR'') msg"

text \<open>
  The text of \<open>${timeout}\<close> in the message of a \<open>TimeoutError(timeout ?? 0)\<close>: a number in
  decimal, or the source text of a \<open>retryDelay\<close> function.
\<close>

fun timeout_text :: "retryDelay_setting option \<Rightarrow> string" where
  "timeout_text None = ''0''"
| "timeout_text (Some (RetryDelay_number n)) = show_int n"
| "timeout_text (Some (RetryDelay_function source)) = source"

definition TimeoutError :: "retryDelay_setting option \<Rightarrow> js_error" where
  "TimeoutError t =
     JsError ''TimeoutError'' (Some ''TIMEOUT_ERROR'') (''Request timed out after '' @ timeout_text t @ ''ms'')"

record ClientConfig =
  baseUrl :: "string option"
  timeout :: "int option"

record 'a Response =
  ok :: bool
  status :: int
  statusText :: string
  json :: "js_error + 'a jsval"

datatype retry_event = Attempt nat | Delay int

function withRetry_loop ::
  "(nat \<Rightarrow> js_error + 'r) \<Rightarrow> int \<Rightarrow> nat \<Rightarrow> retry_event list \<times> (js_error + 'r)" where
  "withRetry_loop fn attempts i =
     (if int i < attempts then
        (case fn i of
           Inr r \<Rightarrow> ([Attempt i], Inr r)
         | Inl e \<Rightarrow>
             if int i = attempts - 1 then ([Attempt i], Inl e)
             else (let (trace, r) = withRetry_loop fn attempts (i + 1)
                   in (Attempt i # Delay (int i * 1000) # trace, r)))
      else ([], Inl (Error_new ''Retry failed'')))"
  by pat_completeness auto
termination
  by (relation "measure (\<lambda>(fn, attempts, i). nat (attempts - int i))") auto

declare withRetry_loop.simps [simp del]

definition withRetry ::
  "(nat \<Rightarrow> js_error + 'r) \<Rightarrow> retry_setting option \<Rightarrow> retry_event list \<times> (js_error + 'r)" where
  "withRetry fn r =
     (let retry' = (case r of None \<Rightarrow> Retry_number 3 | Some x \<Rightarrow> x);
          attempts = (case retry' of Retry_number n \<Rightarrow> n | Retry_boolean b \<Rightarrow> 3)
      in withRetry_loop fn attempts 0)"

definition validateData :: "'a jsval \<Rightarrow> js_error option" where
  "validateData d =
     (if d = Null \<or> d = Undefined
      then Some (ValidationError ''Response data cannot be null or undefined'')
      else None)"

definition execute_timeout :: "ClientConfig \<Rightarrow> ('a, 'w) QueryOptions \<Rightarrow> retryDelay_setting option" where
  "execute_timeout cfg options =
     (case retryDelay options of
        None \<Rightarrow> map_option RetryDelay_number (timeout cfg)
      | Some t \<Rightarrow> Some t)"

definition execute ::
  "(nat \<Rightarrow> js_error + 'a Response) \<Rightarrow> ClientConfig \<Rightarrow> ('a, 'w) QueryOptions
     \<Rightarrow> retry_event list \<times> (js_error + 'a jsval)" where
  "execute net cfg options =
     (let timeout' = execute_timeout cfg options;
          (trace, r) = withRetry net (retry options);
          body = (case r of
                    Inl e \<Rightarrow> Inl e
                  | Inr response \<Rightarrow>
                      if \<not> ok response then
                        Inl (NetworkError (''HTTP '' @ show_int (status response) @ '': ''
                                            @ statusText response))
                      else (case json response of
                              Inl e \<Rightarrow> Inl e
                            | Inr d \<Rightarrow> (case validateData d of Some e \<Rightarrow> Inl e | None \<Rightarrow> Inr d)))
      in (trace,
          case body of
            Inl e \<Rightarrow> if err_name e = ''AbortError'' then Inl (TimeoutError timeout') else Inl e
          | Inr d \<Rightarrow> Inr d))"

text \<open>The trace of \<open>n\<close> failed attempts with the waits between them.\<close>

definition backoff_trace :: "nat \<Rightarrow> retry_event list" where
  "backoff_trace n = concat (map (\<lambda>i. [Attempt i, Delay (int i * 1000)]) [0..<n - 1]) @ [Attempt (n - 1)]"

subsection \<open>Retry\<close>

lemma withRetry_loop_all_fail:
  assumes "\<forall>j<n. isl (fn j)" and "i < n"
  shows "withRetry_loop fn (int n) i =
           (concat (map (\<lambda>j. [Attempt j, Delay (int j * 1000)]) [i..<n - 1]) @ [Attempt (n - 1)],
            fn (n - 1))"
  using assms(2)
proof (induction "n - i" arbitrary: i)
  case 0
  then show ?case by simp
next
  case (Suc k)
  from assms(1) Suc.prems obtain e where e: "fn i = Inl e" by (metis isl_def)
  show ?case
  proof (cases "i = n - 1")
    case True
    with e Suc.prems show ?thesis
      by (subst withRetry_loop.simps) (auto simp: of_nat_diff)
  next
    case False
    with Suc.prems have lt: "i + 1 < n" by simp
    have k: "k = n - (i + 1)" using Suc.hyps(2) by simp
    have IH: "withRetry_loop fn (int n) (i + 1) =
           (concat (map (\<lambda>j. [Attempt j, Delay (int j * 1000)]) [i + 1..<n - 1]) @ [Attempt (n - 1)],
            fn (n - 1))"
      by (rule Suc.hyps(1) [OF k lt])
    have up: "[i..<n - 1] = i # [i + 1..<n - 1]"
      using lt by (simp add: upt_conv_Cons)
    have ne: "int i \<noteq> int n - 1" using False Suc.prems by linarith
    show ?thesis
      using e Suc.prems ne IH up
      by (subst withRetry_loop.simps) simp
  qed
qed

text \<open>
  Claim C6. When every one of the \<open>n\<close> attempts of the policy fails (\<open>n = 3\<close> when
  \<open>retry\<close> is not given), \<open>fn\<close> is called \<open>n\<close> times, the wait after the failed attempt
  number \<open>i\<close> (counted from 0) is \<open>i * 1000\<close> ms, there is no wait after the last one, and
  \<open>withRetry\<close> throws the error of the last attempt as it is. \<open>execute\<close> passes that error
  on unchanged, except that an error named AbortError (the attempt was aborted by the
  timer or the caller) is replaced by a \<open>TimeoutError\<close>.
\<close>

theorem retry_attempts_backoff_and_error:
  assumes "\<forall>j<n. isl (net j)" and "0 < n"
    and "retry options = Some (Retry_number (int n)) \<or> (n = 3 \<and> retry options = None)"
  shows "withRetry net (retry options) = (backoff_trace n, net (n - 1))
       \<and> execute net cfg options =
           (backoff_trace n,
            Inl (if err_name (projl (net (n - 1))) = ''AbortError''
                 then TimeoutError (execute_timeout cfg options)
                 else projl (net (n - 1))))
       \<and> backoff_trace 3 = [Attempt 0, Delay (0 * 1000), Attempt 1, Delay (1 * 1000), Attempt 2]"
proof -
  have loop: "withRetry_loop net (int n) 0 = (backoff_trace n, net (n - 1))"
    using withRetry_loop_all_fail [OF assms(1,2)] by (simp add: backoff_trace_def)
  have w: "withRetry net (retry options) = (backoff_trace n, net (n - 1))"
    using assms(3) loop by (auto simp: withRetry_def)
  from assms(1,2) obtain e where e: "net (n - 1) = Inl e"
    by (metis diff_less isl_def zero_less_one)
  have x: "execute net cfg options =
           (backoff_trace n,
            Inl (if err_name (projl (net (n - 1))) = ''AbortError''
                 then TimeoutError (execute_timeout cfg options)
                 else projl (net (n - 1))))"
    using e by (simp add: execute_def w)
  have b: "backoff_trace 3 = [Attempt 0, Delay (0 * 1000), Attempt 1, Delay (1 * 1000), Attempt 2]"
    by (simp add: backoff_trace_def upt_rec)
  from w x b show ?thesis by blast
qed

theorem retry_attempts_backoff_and_error_witness:
  "isl (Inl (Error_new ''Failed to fetch'') :: js_error + nat Response) \<and> (0::nat) < 3
   \<and> retry (no_options :: (nat, unit) QueryOptions) = None
   \<and> execute (\<lambda>i. Inl (Error_new ''Failed to fetch'')) \<lparr>baseUrl = None, timeout = None\<rparr>
        (no_options :: (nat, unit) QueryOptions)
      = ([Attempt 0, Delay 0, Attempt 1, Delay 1000, Attempt 2], Inl (Error_new ''Failed to fetch''))"
proof -
  have a: "\<forall>j<3::nat. isl ((\<lambda>i. Inl (Error_new ''Failed to fetch'')) j :: js_error + nat Response)"
    by simp
  have c: "retry (no_options :: (nat, unit) QueryOptions) = Some (Retry_number (int 3))
           \<or> ((3::nat) = 3 \<and> retry (no_options :: (nat, unit) QueryOptions) = None)"
    by (simp add: no_options_def)
  from retry_attempts_backoff_and_error [OF a _ c, of "\<lparr>baseUrl = None, timeout = None\<rparr>"]
  show ?thesis
    by (simp add: no_options_def Error_new_def)
qed

subsection \<open>Deduplication of requests in flight\<close>

text \<open>
  \<open>RequestHandler.fetch\<close> is an \<open>async\<close> method: its body runs without interruption up
  to \<open>await request\<close>, and resumes in \<open>finally\<close> when the request has settled. The model has
  one step for each part. A promise returned by \<open>execute\<close> is identified by the number of
  the call of \<open>execute\<close> that made it; \<open>executions\<close> lists those calls with the arguments
  and the configuration they read. The outcome of a request is what \<open>execute\<close> yields on
  the network behaviour \<open>net\<close> of that call.
\<close>

text \<open>\<open>{ ...a, ...b }\<close>: the properties of \<open>a\<close>, then those of \<open>b\<close> set one by one.\<close>

definition spread :: "('k \<times> 'v) list \<Rightarrow> ('k \<times> 'v) list \<Rightarrow> ('k \<times> 'v) list" where
  "spread a b = foldl (\<lambda>obj (k, v). Map_set k v obj) a b"

definition buildKey :: "(string \<Rightarrow> string \<Rightarrow> int) \<Rightarrow> string \<Rightarrow> ('a, 'w) QueryOptions \<Rightarrow> string" where
  "buildKey localeCompare url options =
     (let params' = (case params options of None \<Rightarrow> [] | Some p \<Rightarrow> p);
          searchParams' = (case searchParams options of None \<Rightarrow> [] | Some p \<Rightarrow> p)
      in generateCacheKey localeCompare url (spread params' searchParams'))"

record ('a, 'w) RequestHandler =
  pendingRequests :: "(string \<times> nat) list"
  config :: ClientConfig
  executions :: "(string \<times> ('a, 'w) QueryOptions \<times> ClientConfig) list"

definition RequestHandler_new :: "ClientConfig \<Rightarrow> ('a, 'w) RequestHandler" where
  "RequestHandler_new cfg = \<lparr>pendingRequests = [], config = cfg, executions = []\<rparr>"

text \<open>\<open>fetch\<close> from its start to \<open>await request\<close>: the request the caller waits for.\<close>

definition fetch_call ::
  "(string \<Rightarrow> string \<Rightarrow> int) \<Rightarrow> string \<Rightarrow> ('a, 'w) QueryOptions \<Rightarrow> ('a, 'w) RequestHandler
     \<Rightarrow> nat \<times> ('a, 'w) RequestHandler" where
  "fetch_call localeCompare urlTemplate options h =
     (let key = buildKey localeCompare urlTemplate options
      in case Map_get (pendingRequests h) key of
           Some request \<Rightarrow> (request, h)
         | None \<Rightarrow>
             let request = length (executions h);
                 h1 = h\<lparr>executions := executions h @ [(urlTemplate, options, config h)]\<rparr>
             in (request, h1\<lparr>pendingRequests := Map_set key request (pendingRequests h1)\<rparr>))"

text \<open>The \<open>finally\<close> block of the caller that started the request, run when it has settled.\<close>

definition fetch_finally ::
  "(string \<Rightarrow> string \<Rightarrow> int) \<Rightarrow> string \<Rightarrow> ('a, 'w) QueryOptions \<Rightarrow> ('a, 'w) RequestHandler
     \<Rightarrow> ('a, 'w) RequestHandler" where
  "fetch_finally localeCompare urlTemplate options h =
     h\<lparr>pendingRequests := Map_delete (buildKey localeCompare urlTemplate options) (pendingRequests h)\<rparr>"

definition request_outcome ::
  "(nat \<Rightarrow> nat \<Rightarrow> js_error + 'a Response) \<Rightarrow> ('a, 'w) RequestHandler \<Rightarrow> nat \<Rightarrow> js_error + 'a jsval" where
  "request_outcome net h request =
     (case executions h ! request of
        (urlTemplate, options, cfg) \<Rightarrow> snd (execute (net request) cfg options))"

text \<open>
  Claim C5. A call of \<open>fetch\<close> for a key that has a pending request returns that request
  and changes nothing: \<open>execute\<close> is not called. Hence, of two calls with the same key
  where the second arrives before the first request has settled, only the first calls
  \<open>execute\<close> (once), both callers hold the same request, and both receive the outcome
  of that one execution.
\<close>

theorem concurrent_fetch_shares_request:
  "(\<forall>request. Map_get (pendingRequests h) (buildKey localeCompare url options) = Some request \<longrightarrow>
      fetch_call localeCompare url options h = (request, h))
   \<and> (Map_get (pendingRequests h) (buildKey localeCompare url options) = None
        \<and> buildKey localeCompare url2 options2 = buildKey localeCompare url options \<longrightarrow>
      fst (fetch_call localeCompare url2 options2 (snd (fetch_call localeCompare url options h)))
        = fst (fetch_call localeCompare url options h)
      \<and> snd (fetch_call localeCompare url2 options2 (snd (fetch_call localeCompare url options h)))
        = snd (fetch_call localeCompare url options h)
      \<and> executions (snd (fetch_call localeCompare url options h))
        = executions h @ [(url, options, config h)]
      \<and> request_outcome net (snd (fetch_call localeCompare url options h))
            (fst (fetch_call localeCompare url2 options2 (snd (fetch_call localeCompare url options h))))
        = snd (execute (net (length (executions h))) (config h) options)
      \<and> request_outcome net (snd (fetch_call localeCompare url options h))
            (fst (fetch_call localeCompare url options h))
        = snd (execute (net (length (executions h))) (config h) options))"
  by (simp add: fetch_call_def Let_def Map_get_set request_outcome_def)

definition pending_test :: "(nat, unit) RequestHandler" where
  "pending_test = snd (fetch_call code_unit_compare ''/test'' no_options
                         (RequestHandler_new \<lparr>baseUrl = Some ''https://api.com'', timeout = None\<rparr>))"

theorem concurrent_fetch_shares_request_witness:
  "Map_get (pendingRequests
       (RequestHandler_new \<lparr>baseUrl = Some ''https://api.com'', timeout = None\<rparr>
          :: (nat, unit) RequestHandler))
     (buildKey code_unit_compare ''/test'' (no_options :: (nat, unit) QueryOptions)) = None
   \<and> Map_get (pendingRequests pending_test)
         (buildKey code_unit_compare ''/test'' (no_options :: (nat, unit) QueryOptions)) = Some 0
   \<and> fetch_call code_unit_compare ''/test'' no_options pending_test = (0, pending_test)
   \<and> length (executions (snd (fetch_call code_unit_compare ''/test'' no_options pending_test))) = 1"
proof -
  let ?h = "RequestHandler_new \<lparr>baseUrl = Some ''https://api.com'', timeout = None\<rparr>
              :: (nat, unit) RequestHandler"
  let ?o = "no_options :: (nat, unit) QueryOptions"
  have a: "Map_get (pendingRequests ?h) (buildKey code_unit_compare ''/test'' ?o) = None"
    by (simp add: RequestHandler_new_def Map_get_def)
  have p: "Map_get (pendingRequests pending_test) (buildKey code_unit_compare ''/test'' ?o) = Some 0"
    by (simp add: pending_test_def fetch_call_def RequestHandler_new_def Map_get_def Let_def)
  have e: "length (executions pending_test) = 1"
    using concurrent_fetch_shares_request [of ?h code_unit_compare "''/test''" ?o "''/test''" ?o] a
    by (simp add: pending_test_def RequestHandler_new_def)
  have j: "fetch_call code_unit_compare ''/test'' no_options pending_test = (0, pending_test)"
    using concurrent_fetch_shares_request
            [of pending_test code_unit_compare "''/test''" ?o "''/test''" ?o] p
    by simp
  from a p j e show ?thesis by simp
qed

section \<open>State manager plugin (plugins/core/state-manager.ts)\<close>

text \<open>
  The plugin keeps one state machine of its own for every query key and every mutation
  key, and replays on it each snapshot it is sent; the replayed \<open>transition\<close> may
  throw, and the machine (created on first use) stays in the map either way. The
  listeners of these machines act on no state of the model.
\<close>

record 'a StateManager =
  queries :: "(string \<times> ('a, unit) StateMachine) list"
  mutations :: "(string \<times> ('a, unit) StateMachine) list"

definition StateManager_new :: "'a StateManager" where
  "StateManager_new = \<lparr>queries = [], mutations = []\<rparr>"

definition setQueryState ::
  "int \<Rightarrow> string \<Rightarrow> 'a StateSnapshot \<Rightarrow> 'a StateManager \<Rightarrow> js_error option \<times> 'a StateManager" where
  "setQueryState now key snapshot sm =
     (let m = (case Map_get (queries sm) key of None \<Rightarrow> StateMachine_new | Some m \<Rightarrow> m);
          (r, m', u) = transition now (snap_state snapshot) (snap_data snapshot)
                         (nullish (snap_error snapshot) Undefined) m ()
      in (case r of Inl e \<Rightarrow> Some e | Inr s \<Rightarrow> None, sm\<lparr>queries := Map_set key m' (queries sm)\<rparr>))"

definition setMutationState ::
  "int \<Rightarrow> string \<Rightarrow> 'a StateSnapshot \<Rightarrow> 'a StateManager \<Rightarrow> js_error option \<times> 'a StateManager" where
  "setMutationState now key snapshot sm =
     (let m = (case Map_get (mutations sm) key of None \<Rightarrow> StateMachine_new | Some m \<Rightarrow> m);
          (r, m', u) = transition now (snap_state snapshot) (snap_data snapshot)
                         (nullish (snap_error snapshot) Undefined) m ()
      in (case r of Inl e \<Rightarrow> Some e | Inr s \<Rightarrow> None, sm\<lparr>mutations := Map_set key m' (mutations sm)\<rparr>))"

section \<open>Kernel (kernel.ts) with the plugins of the client\<close>

text \<open>
  The kernel's context holds the objects that the installed plugins put there: the cache
  manager (plugin cache-manager) and the state manager (plugin state-manager); a field
  is \<open>None\<close> when the plugin is not registered. \<open>Client_kernel\<close> is the kernel that
  \<open>new Client(config)\<close> builds. \<open>emit\<close> runs the handlers that these plugins register
  with \<open>kernel.on\<close> in their \<open>install\<close>, one equation for each event name used by queries
  and mutations; no plugin of the repository registers a handler for
  \<open>'mutation:rollback'\<close>. Handlers added by user code are not modelled. The result of
  \<open>emit\<close> is what a handler throws, if any, and the kernel after the handlers.
  \<open>RegExp_test regex key\<close> stands for \<open>new RegExp(regex).test(key)\<close>.
\<close>

record 'a Kernel =
  ctx_cache :: "'a CacheManager option"
  ctx_stateManager :: "'a StateManager option"
  kernel_config :: ClientConfig

definition Kernel_new :: "ClientConfig \<Rightarrow> 'a Kernel" where
  "Kernel_new cfg = \<lparr>ctx_cache = None, ctx_stateManager = None, kernel_config = cfg\<rparr>"

definition Client_kernel :: "ClientConfig \<Rightarrow> 'a Kernel" where
  "Client_kernel cfg =
     \<lparr>ctx_cache = Some CacheManager_new, ctx_stateManager = Some StateManager_new, kernel_config = cfg\<rparr>"

datatype 'a event =
    Query_state string "'a StateSnapshot"
  | Mutation_state string "'a StateSnapshot"
  | Query_success string "'a jsval" "('a, 'a Kernel) QueryOptions" string
  | Cache_invalidate pattern
  | Cache_invalidate_auto string
  | Mutation_rollback "'a jsval"

fun emit ::
  "(string \<Rightarrow> string \<Rightarrow> bool) \<Rightarrow> int \<Rightarrow> 'a event \<Rightarrow> 'a Kernel \<Rightarrow> js_error option \<times> 'a Kernel" where
  "emit RegExp_test now (Query_state key snapshot) k =
     (case ctx_stateManager k of
        None \<Rightarrow> (None, k)
      | Some sm \<Rightarrow> (let (r, sm') = setQueryState now key snapshot sm
                   in (r, k\<lparr>ctx_stateManager := Some sm'\<rparr>)))"
| "emit RegExp_test now (Mutation_state key snapshot) k =
     (case ctx_stateManager k of
        None \<Rightarrow> (None, k)
      | Some sm \<Rightarrow> (let (r, sm') = setMutationState now key snapshot sm
                   in (r, k\<lparr>ctx_stateManager := Some sm'\<rparr>)))"
| "emit RegExp_test now (Query_success key d options url) k =
     (case ctx_cache k of
        None \<Rightarrow> (None, k)
      | Some c \<Rightarrow> (None, k\<lparr>ctx_cache := Some (cm_set now key d options c)\<rparr>))"
| "emit RegExp_test now (Cache_invalidate pat) k =
     (case ctx_cache k of
        None \<Rightarrow> (None, k)
      | Some c \<Rightarrow> (None, k\<lparr>ctx_cache := Some (cm_invalidate RegExp_test pat c)\<rparr>))"
| "emit RegExp_test now (Cache_invalidate_auto url) k =
     (case ctx_cache k of
        None \<Rightarrow> (None, k)
      | Some c \<Rightarrow> (None, k\<lparr>ctx_cache := Some (cm_invalidateRelated url c)\<rparr>))"
| "emit RegExp_test now (Mutation_rollback context) k = (None, k)"

text \<open>
  \<open>emitAsync('request:fetch', ...)\<close> on the outcome \<open>net\<close> of the global \<open>fetch\<close>: the
  field \<open>data\<close> of the object it resolves with, or the error it rejects with.
\<close>

definition emitAsync_request_fetch :: "(js_error + 'a Response) \<Rightarrow> js_error + 'a jsval" where
  "emitAsync_request_fetch net =
     (case net of
        Inl e \<Rightarrow> Inl e
      | Inr response \<Rightarrow>
          if \<not> ok response then
            Inl (Error_new (''HTTP '' @ show_int (status response) @ '': '' @ statusText response))
          else json response)"

text \<open>
  \<open>transition\<close> on the machine of a query or mutation instance. The constructor of the
  instance subscribes \<open>handleStateChange\<close> first, so \<open>notify\<close> calls it before every
  other listener; it emits an event on the kernel and may throw. It is the argument
  \<open>listener\<close>; the list \<open>listeners\<close> of the machine holds the listeners subscribed later
  through \<open>onStateChange\<close>, which act on the kernel.
\<close>

definition transition_with ::
  "('a, 'w) listener \<Rightarrow> int \<Rightarrow> State \<Rightarrow> 'a jsval \<Rightarrow> js_error jsval
     \<Rightarrow> ('a, 'w) StateMachine \<Rightarrow> 'w \<Rightarrow> (js_error + 'a StateSnapshot) \<times> ('a, 'w) StateMachine \<times> 'w" where
  "transition_with listener now newState d e m w =
     (if \<not> isValidTransition (state m) newState then
        (Inl (invalid_transition (state m) newState), m, w)
      else
        let (snapshot, m2) = record_transition now newState d e m;
            (thrown, w') = notify snapshot (listener # map snd (listeners m2)) w
        in case thrown of
             Some err \<Rightarrow> (Inl err, m2, w')
           | None \<Rightarrow> (Inr snapshot, m2, w'))"

text \<open>An optional callback \<open>f?.(...)\<close>.\<close>

definition call_optional :: "('w \<Rightarrow> js_error option \<times> 'w) option \<Rightarrow> 'w \<Rightarrow> js_error option \<times> 'w" where
  "call_optional f w = (case f of None \<Rightarrow> (None, w) | Some g \<Rightarrow> g w)"

section \<open>Query (query.ts)\<close>

text \<open>
  A call of \<open>fetch\<close> is modelled from its start to its completion, with \<open>net\<close> the
  outcome of the network call it may make and one clock reading \<open>now\<close>; nothing else
  runs while it waits. It returns what the call resolves with (\<open>Inr\<close>) or rejects with
  (\<open>Inl\<close>), the instance and the kernel. Callbacks of the options act on the kernel and
  may throw. \<open>abortController\<close> records only whether the field is non-null.
\<close>

record 'a QueryInstance =
  q_urlTemplate :: string
  q_options :: "('a, 'a Kernel) QueryOptions"
  q_stateMachine :: "('a, 'a Kernel) StateMachine"
  abortController :: bool
  q_key :: string
  hasFetched :: bool

definition QueryInstance_new ::
  "(string \<Rightarrow> string \<Rightarrow> int) \<Rightarrow> string \<Rightarrow> ('a, 'a Kernel) QueryOptions \<Rightarrow> 'a QueryInstance" where
  "QueryInstance_new localeCompare urlTemplate options =
     \<lparr>q_urlTemplate = urlTemplate, q_options = options, q_stateMachine = StateMachine_new,
      abortController = False, q_key = buildKey localeCompare urlTemplate options,
      hasFetched = False\<rparr>"

definition q_transition ::
  "(string \<Rightarrow> string \<Rightarrow> bool) \<Rightarrow> int \<Rightarrow> State \<Rightarrow> 'a jsval \<Rightarrow> js_error jsval \<Rightarrow> 'a QueryInstance
     \<Rightarrow> 'a Kernel \<Rightarrow> (js_error + 'a StateSnapshot) \<times> 'a QueryInstance \<times> 'a Kernel" where
  "q_transition RegExp_test now newState d e q k =
     (let (r, m, k') = transition_with (\<lambda>snapshot. emit RegExp_test now (Query_state (q_key q) snapshot))
                         now newState d e (q_stateMachine q) k
      in (r, q\<lparr>q_stateMachine := m\<rparr>, k'))"

definition applySelect :: "('a, 'w) QueryOptions \<Rightarrow> 'a jsval \<Rightarrow> js_error + 'a jsval" where
  "applySelect options d = (case select options of None \<Rightarrow> Inr d | Some f \<Rightarrow> f d)"

definition getPlaceholderOrUndefined :: "('a, 'w) QueryOptions \<Rightarrow> js_error + 'a jsval" where
  "getPlaceholderOrUndefined options =
     (case placeholderData options of
        None \<Rightarrow> Inr Undefined
      | Some (Placeholder_function r) \<Rightarrow> r
      | Some (Placeholder_value v) \<Rightarrow> Inr v)"

text \<open>
  The tail shared by the two branches of the try block, from \<open>applySelect\<close> on: \<open>raw\<close>
  is the cached or fetched data; \<open>fetched\<close> is the fetched data on the network branch,
  which alone emits \<open>'query:success'\<close>.
\<close>

definition fetch_succeed ::
  "(string \<Rightarrow> string \<Rightarrow> bool) \<Rightarrow> int \<Rightarrow> 'a jsval option \<Rightarrow> 'a jsval \<Rightarrow> 'a QueryInstance \<Rightarrow> 'a Kernel
     \<Rightarrow> (js_error + 'a jsval) \<times> 'a QueryInstance \<times> 'a Kernel" where
  "fetch_succeed RegExp_test now fetched raw q k =
     (case applySelect (q_options q) raw of
        Inl e \<Rightarrow> (Inl e, q, k)
      | Inr d \<Rightarrow>
          (case q_transition RegExp_test now Success d Undefined q k of
             (Inl e, q1, k1) \<Rightarrow> (Inl e, q1, k1)
           | (Inr s, q1, k1) \<Rightarrow>
               let q2 = q1\<lparr>hasFetched := True\<rparr>;
                   (thrown, k2) = (case fetched of
                                     None \<Rightarrow> (None, k1)
                                   | Some result_data \<Rightarrow>
                                       emit RegExp_test now
                                         (Query_success (q_key q2) result_data (q_options q2)
                                            (q_urlTemplate q2)) k1)
               in case thrown of
                    Some e \<Rightarrow> (Inl e, q2, k2)
                  | None \<Rightarrow>
                      (case call_optional (map_option (\<lambda>f. f d) (onSuccess (q_options q2))) k2 of
                         (Some e, k3) \<Rightarrow> (Inl e, q2, k3)
                       | (None, k3) \<Rightarrow> (Inr d, q2, k3))))"

definition fetch_try ::
  "(string \<Rightarrow> string \<Rightarrow> bool) \<Rightarrow> int \<Rightarrow> (js_error + 'a Response) \<Rightarrow> 'a QueryInstance \<Rightarrow> 'a Kernel
     \<Rightarrow> (js_error + 'a jsval) \<times> 'a QueryInstance \<times> 'a Kernel" where
  "fetch_try RegExp_test now net q k =
     (let cachedData = (case ctx_cache k of None \<Rightarrow> Undefined | Some c \<Rightarrow> fst (cm_get now (q_key q) c))
      in if cachedData \<noteq> Undefined then fetch_succeed RegExp_test now None cachedData q k
         else (case emitAsync_request_fetch net of
                 Inl e \<Rightarrow> (Inl e, q, k)
               | Inr result_data \<Rightarrow> fetch_succeed RegExp_test now (Some result_data) result_data q k))"

definition fetch_catch ::
  "(string \<Rightarrow> string \<Rightarrow> bool) \<Rightarrow> int \<Rightarrow> js_error \<Rightarrow> 'a QueryInstance \<Rightarrow> 'a Kernel
     \<Rightarrow> js_error \<times> 'a QueryInstance \<times> 'a Kernel" where
  "fetch_catch RegExp_test now typedError q k =
     (case q_transition RegExp_test now Error Undefined (Val typedError) q k of
        (Inl e, q1, k1) \<Rightarrow> (e, q1, k1)
      | (Inr s, q1, k1) \<Rightarrow>
          (case call_optional (map_option (\<lambda>f. f typedError) (onError (q_options q1))) k1 of
             (Some e, k2) \<Rightarrow> (e, q1, k2)
           | (None, k2) \<Rightarrow> (typedError, q1, k2)))"

definition fetch_finally_block ::
  "(js_error + 'a jsval) \<Rightarrow> 'a QueryInstance \<Rightarrow> 'a Kernel
     \<Rightarrow> (js_error + 'a jsval) \<times> 'a QueryInstance \<times> 'a Kernel" where
  "fetch_finally_block completion q k =
     (case call_optional
             (map_option (\<lambda>f. f (data (q_stateMachine q)) (error (q_stateMachine q)))
                (onSettled (q_options q))) k of
        (Some e, k1) \<Rightarrow> (Inl e, q, k1)
      | (None, k1) \<Rightarrow> (completion, q\<lparr>abortController := False\<rparr>, k1))"

definition fetch ::
  "(string \<Rightarrow> string \<Rightarrow> bool) \<Rightarrow> int \<Rightarrow> (js_error + 'a Response) \<Rightarrow> 'a QueryInstance \<Rightarrow> 'a Kernel
     \<Rightarrow> (js_error + 'a jsval) \<times> 'a QueryInstance \<times> 'a Kernel" where
  "fetch RegExp_test now net q0 k =
     (let q = q0\<lparr>abortController := True\<rparr>
      in if enabled (q_options q) = Some False then (getPlaceholderOrUndefined (q_options q), q, k)
         else (case q_transition RegExp_test now Loading Undefined Undefined q k of
                 (Inl e, q1, k1) \<Rightarrow> (Inl e, q1, k1)
               | (Inr s, q1, k1) \<Rightarrow>
                   (case fetch_try RegExp_test now net q1 k1 of
                      (Inr d, q2, k2) \<Rightarrow> fetch_finally_block (Inr d) q2 k2
                    | (Inl e, q2, k2) \<Rightarrow>
                        (case fetch_catch RegExp_test now e q2 k2 of
                           (e', q3, k3) \<Rightarrow> fetch_finally_block (Inl e') q3 k3))))"

record 'a SafeResult =
  result_data :: "'a jsval"
  result_error :: "js_error jsval"

definition fetchSafe ::
  "(string \<Rightarrow> string \<Rightarrow> bool) \<Rightarrow> int \<Rightarrow> (js_error + 'a Response) \<Rightarrow> 'a QueryInstance \<Rightarrow> 'a Kernel
     \<Rightarrow> 'a SafeResult \<times> 'a QueryInstance \<times> 'a Kernel" where
  "fetchSafe RegExp_test now net q k =
     (case fetch RegExp_test now net q k of
        (Inr d, q', k') \<Rightarrow> (\<lparr>result_data = d, result_error = Null\<rparr>, q', k')
      | (Inl e, q', k') \<Rightarrow> (\<lparr>result_data = Null, result_error = Val e\<rparr>, q', k'))"


definition ok_response :: "'a jsval \<Rightarrow> 'a Response" where
  "ok_response d = \<lparr>ok = True, status = 200, statusText = ''OK'', json = Inr d\<rparr>"

definition sample_query :: "nat QueryInstance" where
  "sample_query = QueryInstance_new code_unit_compare ''/test'' no_options"

definition sample_kernel :: "nat Kernel" where
  "sample_kernel = Client_kernel \<lparr>baseUrl = Some ''https://api.com'', timeout = None\<rparr>"

text \<open>
  Claim C8. \<open>fetchSafe\<close> returns a result object in every case: when \<open>fetch\<close> resolves
  with \<open>d\<close> the result is \<open>{data: d, error: null}\<close>, and when \<open>fetch\<close> rejects with \<open>e\<close>,
  whichever step of \<open>fetch\<close> threw it, the result is \<open>{data: null, error: e}\<close> with that
  same \<open>e\<close>; the instance and the kernel are left as \<open>fetch\<close> leaves them.
\<close>

theorem fetchSafe_returns_fetch_outcome:
  "(\<forall>d q' k'. fetch RegExp_test now net q k = (Inr d, q', k') \<longrightarrow>
      fetchSafe RegExp_test now net q k = (\<lparr>result_data = d, result_error = Null\<rparr>, q', k'))
   \<and> (\<forall>e q' k'. fetch RegExp_test now net q k = (Inl e, q', k') \<longrightarrow>
      fetchSafe RegExp_test now net q k = (\<lparr>result_data = Null, result_error = Val e\<rparr>, q', k'))
   \<and> snd (fetchSafe RegExp_test now net q k) = snd (fetch RegExp_test now net q k)"
  by (auto simp: fetchSafe_def split: sum.splits prod.splits)

lemma fetch_sample_success:
  "fst (fetch (\<lambda>r s. False) 10 (Inr (ok_response (Val 5))) sample_query sample_kernel) = Inr (Val 5)"
  by (simp add: fetch_def Let_def sample_query_def QueryInstance_new_def no_options_def
      sample_kernel_def Client_kernel_def q_transition_def transition_with_def StateMachine_new_def
      isValidTransition_def record_transition_def setQueryState_def StateManager_new_def
      Map_get_def transition_def fetch_try_def CacheManager_new_def cm_get_def
      emitAsync_request_fetch_def ok_response_def fetch_succeed_def applySelect_def
      call_optional_def fetch_finally_block_def cm_set_def)

lemma fetch_sample_failure:
  "fst (fetch (\<lambda>r s. False) 10 (Inl (Error_new ''Network error'')) sample_query sample_kernel)
     = Inl (Error_new ''Network error'')"
  by (simp add: fetch_def Let_def sample_query_def QueryInstance_new_def no_options_def
      sample_kernel_def Client_kernel_def q_transition_def transition_with_def StateMachine_new_def
      isValidTransition_def record_transition_def setQueryState_def StateManager_new_def
      Map_get_def transition_def fetch_try_def CacheManager_new_def cm_get_def
      emitAsync_request_fetch_def fetch_catch_def
      call_optional_def fetch_finally_block_def)

theorem fetchSafe_returns_fetch_outcome_witness:
  "fst (fetch (\<lambda>r s. False) 10 (Inr (ok_response (Val 5))) sample_query sample_kernel) = Inr (Val 5)
   \<and> fst (fetchSafe (\<lambda>r s. False) 10 (Inr (ok_response (Val 5))) sample_query sample_kernel)
       = \<lparr>result_data = Val 5, result_error = Null\<rparr>
   \<and> fst (fetch (\<lambda>r s. False) 10 (Inl (Error_new ''Network error'')) sample_query sample_kernel)
       = Inl (Error_new ''Network error'')
   \<and> fst (fetchSafe (\<lambda>r s. False) 10 (Inl (Error_new ''Network error'')) sample_query sample_kernel)
       = \<lparr>result_data = Null, result_error = Val (Error_new ''Network error'')\<rparr>"
proof -
  note t1 = fetchSafe_returns_fetch_outcome
              [of "\<lambda>r s. False" 10 "Inr (ok_response (Val 5))" sample_query sample_kernel]
  note t2 = fetchSafe_returns_fetch_outcome
              [of "\<lambda>r s. False" 10 "Inl (Error_new ''Network error'')" sample_query sample_kernel]
  have a: "fst (fetchSafe (\<lambda>r s. False) 10 (Inr (ok_response (Val 5))) sample_query sample_kernel)
       = \<lparr>result_data = Val 5, result_error = Null\<rparr>"
    using t1 fetch_sample_success
    by (cases "fetch (\<lambda>r s. False) 10 (Inr (ok_response (Val 5))) sample_query sample_kernel") simp
  have b: "fst (fetchSafe (\<lambda>r s. False) 10 (Inl (Error_new ''Network error'')) sample_query sample_kernel)
       = \<lparr>result_data = Null, result_error = Val (Error_new ''Network error'')\<rparr>"
    using t2 fetch_sample_failure
    by (cases "fetch (\<lambda>r s. False) 10 (Inl (Error_new ''Network error'')) sample_query sample_kernel") simp
  from a b fetch_sample_success fetch_sample_failure show ?thesis by simp
qed

section \<open>Mutation (mutation.ts)\<close>

text \<open>
  \<open>mutate(variables)\<close> is modelled like \<open>fetch\<close>: \<open>net\<close> is the outcome of the one network
  call of \<open>executeMutation\<close>. The optimistic function receives the cache manager and the
  variables; what it did to the cache stays done when it throws.
\<close>

datatype invalidates_setting = Invalidates_auto | Invalidates_list "string list"

record ('a, 'w) MutationOptions =
  mu_method :: "string option"
  optimistic :: "('a CacheManager \<Rightarrow> 'a jsval \<Rightarrow> js_error option \<times> 'a CacheManager) option"
  invalidates :: "invalidates_setting option"
  mu_onSuccess :: "('a jsval \<Rightarrow> 'a jsval \<Rightarrow> 'w \<Rightarrow> js_error option \<times> 'w) option"
  mu_onError :: "(js_error \<Rightarrow> 'a jsval \<Rightarrow> 'a jsval \<Rightarrow> 'w \<Rightarrow> js_error option \<times> 'w) option"
  onMutate :: "('a jsval \<Rightarrow> 'w \<Rightarrow> (js_error + 'a jsval) \<times> 'w) option"
  mu_onSettled :: "('a jsval \<Rightarrow> js_error jsval \<Rightarrow> 'a jsval \<Rightarrow> 'w \<Rightarrow> js_error option \<times> 'w) option"

definition no_mutation_options :: "('a, 'w) MutationOptions" where
  "no_mutation_options =
     \<lparr>mu_method = None, optimistic = None, invalidates = None, mu_onSuccess = None,
      mu_onError = None, onMutate = None, mu_onSettled = None\<rparr>"

record 'a MutationInstance =
  mu_urlTemplate :: string
  mu_options :: "('a, 'a Kernel) MutationOptions"
  mu_stateMachine :: "('a, 'a Kernel) StateMachine"
  optimisticContext :: "'a jsval"
  mu_key :: string

definition MutationInstance_new :: "string \<Rightarrow> ('a, 'a Kernel) MutationOptions \<Rightarrow> 'a MutationInstance" where
  "MutationInstance_new urlTemplate options =
     \<lparr>mu_urlTemplate = urlTemplate, mu_options = options, mu_stateMachine = StateMachine_new,
      optimisticContext = Null,
      mu_key = urlTemplate @ '':'' @ (case mu_method options of None \<Rightarrow> ''POST'' | Some m \<Rightarrow> m)\<rparr>"

definition mu_transition ::
  "(string \<Rightarrow> string \<Rightarrow> bool) \<Rightarrow> int \<Rightarrow> State \<Rightarrow> 'a jsval \<Rightarrow> js_error jsval \<Rightarrow> 'a MutationInstance
     \<Rightarrow> 'a Kernel \<Rightarrow> (js_error + 'a StateSnapshot) \<times> 'a MutationInstance \<times> 'a Kernel" where
  "mu_transition RegExp_test now newState d e m k =
     (let (r, sm, k') = transition_with (\<lambda>snapshot. emit RegExp_test now (Mutation_state (mu_key m) snapshot))
                          now newState d e (mu_stateMachine m) k
      in (r, m\<lparr>mu_stateMachine := sm\<rparr>, k'))"

definition executeMutation :: "(js_error + 'a Response) \<Rightarrow> js_error + 'a jsval" where
  "executeMutation net =
     (case net of
        Inl e \<Rightarrow> Inl e
      | Inr response \<Rightarrow>
          if \<not> ok response then
            Inl (QueryFlowError ''NETWORK_ERROR''
                   (''HTTP '' @ show_int (status response) @ '': '' @ statusText response))
          else json response)"

definition rollback ::
  "(string \<Rightarrow> string \<Rightarrow> bool) \<Rightarrow> int \<Rightarrow> 'a MutationInstance \<Rightarrow> 'a Kernel \<Rightarrow> js_error option \<times> 'a Kernel" where
  "rollback RegExp_test now m k = emit RegExp_test now (Mutation_rollback (optimisticContext m)) k"

definition handleInvalidation ::
  "(string \<Rightarrow> string \<Rightarrow> bool) \<Rightarrow> int \<Rightarrow> 'a MutationInstance \<Rightarrow> 'a Kernel \<Rightarrow> js_error option \<times> 'a Kernel" where
  "handleInvalidation RegExp_test now m k =
     (case invalidates (mu_options m) of
        Some Invalidates_auto \<Rightarrow> emit RegExp_test now (Cache_invalidate_auto (mu_urlTemplate m)) k
      | Some (Invalidates_list keys) \<Rightarrow> emit RegExp_test now (Cache_invalidate (Pattern_array keys)) k
      | None \<Rightarrow> (None, k))"

text \<open>The try block up to the call of \<open>executeMutation\<close>: \<open>onMutate\<close>, then the optimistic update.\<close>

definition mutate_prepare ::
  "'a jsval \<Rightarrow> 'a MutationInstance \<Rightarrow> 'a Kernel \<Rightarrow> js_error option \<times> 'a MutationInstance \<times> 'a Kernel" where
  "mutate_prepare variables m k =
     (case (case onMutate (mu_options m) of
              None \<Rightarrow> (Inr Undefined, m, k)
            | Some f \<Rightarrow> (case f variables k of
                           (Inl e, k1) \<Rightarrow> (Inl e, m, k1)
                         | (Inr c, k1) \<Rightarrow> (Inr c, m\<lparr>optimisticContext := c\<rparr>, k1))) of
        (Inl e, m1, k1) \<Rightarrow> (Some e, m1, k1)
      | (Inr context, m1, k1) \<Rightarrow>
          (case (optimistic (mu_options m1), ctx_cache k1) of
             (Some f, Some c) \<Rightarrow>
               (case f c variables of
                  (None, c') \<Rightarrow> (None, m1, k1\<lparr>ctx_cache := Some c'\<rparr>)
                | (Some thrown, c') \<Rightarrow>
                    (None, m1\<lparr>optimisticContext := context\<rparr>, k1\<lparr>ctx_cache := Some c'\<rparr>))
           | _ \<Rightarrow> (None, m1, k1)))"

definition mutate_try ::
  "(string \<Rightarrow> string \<Rightarrow> bool) \<Rightarrow> int \<Rightarrow> (js_error + 'a Response) \<Rightarrow> 'a jsval \<Rightarrow> 'a MutationInstance
     \<Rightarrow> 'a Kernel \<Rightarrow> (js_error + 'a jsval) \<times> 'a MutationInstance \<times> 'a Kernel" where
  "mutate_try RegExp_test now net variables m k =
     (case mutate_prepare variables m k of
        (Some e, m1, k1) \<Rightarrow> (Inl e, m1, k1)
      | (None, m1, k1) \<Rightarrow>
          (case executeMutation net of
             Inl e \<Rightarrow> (Inl e, m1, k1)
           | Inr d \<Rightarrow>
               (case mu_transition RegExp_test now Success d Undefined m1 k1 of
                  (Inl e, m2, k2) \<Rightarrow> (Inl e, m2, k2)
                | (Inr s, m2, k2) \<Rightarrow>
                    (case call_optional (map_option (\<lambda>f. f d variables) (mu_onSuccess (mu_options m2))) k2 of
                       (Some e, k3) \<Rightarrow> (Inl e, m2, k3)
                     | (None, k3) \<Rightarrow>
                         (case handleInvalidation RegExp_test now m2 k3 of
                            (Some e, k4) \<Rightarrow> (Inl e, m2, k4)
                          | (None, k4) \<Rightarrow> (Inr d, m2, k4))))))"

definition mutate_catch ::
  "(string \<Rightarrow> string \<Rightarrow> bool) \<Rightarrow> int \<Rightarrow> js_error \<Rightarrow> 'a jsval \<Rightarrow> 'a MutationInstance \<Rightarrow> 'a Kernel
     \<Rightarrow> js_error \<times> 'a MutationInstance \<times> 'a Kernel" where
  "mutate_catch RegExp_test now typedError variables m k =
     (case rollback RegExp_test now m k of
        (Some e, k1) \<Rightarrow> (e, m, k1)
      | (None, k1) \<Rightarrow>
          (case mu_transition RegExp_test now Error Undefined (Val typedError) m k1 of
             (Inl e, m2, k2) \<Rightarrow> (e, m2, k2)
           | (Inr s, m2, k2) \<Rightarrow>
               (case call_optional
                       (map_option (\<lambda>f. f typedError variables (optimisticContext m2))
                          (mu_onError (mu_options m2))) k2 of
                  (Some e, k3) \<Rightarrow> (e, m2, k3)
                | (None, k3) \<Rightarrow> (typedError, m2, k3))))"

definition mutate_finally ::
  "(js_error + 'a jsval) \<Rightarrow> 'a jsval \<Rightarrow> 'a MutationInstance \<Rightarrow> 'a Kernel
     \<Rightarrow> (js_error + 'a jsval) \<times> 'a MutationInstance \<times> 'a Kernel" where
  "mutate_finally completion variables m0 k =
     (let m = m0\<lparr>optimisticContext := Null\<rparr>
      in case call_optional
                (map_option (\<lambda>f. f (data (mu_stateMachine m)) (error (mu_stateMachine m)) variables)
                   (mu_onSettled (mu_options m))) k of
           (Some e, k1) \<Rightarrow> (Inl e, m, k1)
         | (None, k1) \<Rightarrow> (completion, m, k1))"

definition mutate ::
  "(string \<Rightarrow> string \<Rightarrow> bool) \<Rightarrow> int \<Rightarrow> (js_error + 'a Response) \<Rightarrow> 'a jsval \<Rightarrow> 'a MutationInstance
     \<Rightarrow> 'a Kernel \<Rightarrow> (js_error + 'a jsval) \<times> 'a MutationInstance \<times> 'a Kernel" where
  "mutate RegExp_test now net variables m k =
     (case mu_transition RegExp_test now Loading Undefined Undefined m k of
        (Inl e, m1, k1) \<Rightarrow> (Inl e, m1, k1)
      | (Inr s, m1, k1) \<Rightarrow>
          (case mutate_try RegExp_test now net variables m1 k1 of
             (Inr d, m2, k2) \<Rightarrow> mutate_finally (Inr d) variables m2 k2
           | (Inl e, m2, k2) \<Rightarrow>
               (case mutate_catch RegExp_test now e variables m2 k2 of
                  (e', m3, k3) \<Rightarrow> mutate_finally (Inl e') variables m3 k3)))"

subsection \<open>A failed mutation with an optimistic update\<close>

text \<open>
  The optimistic function sets the key K to 2. The cache of \<open>kernel_with_K\<close> holds 1 at K;
  the cache of \<open>kernel_without_K\<close> is empty. \<open>cached now key k\<close> is what
  \<open>cache.get(key)\<close> returns on the kernel's cache.
\<close>

definition set_K_to_X :: "nat CacheManager \<Rightarrow> nat jsval \<Rightarrow> js_error option \<times> nat CacheManager" where
  "set_K_to_X c variables = (None, cm_set 10 ''K'' (Val 2) (no_options :: (nat, unit) QueryOptions) c)"

definition optimistic_mutation :: "nat MutationInstance" where
  "optimistic_mutation =
     MutationInstance_new ''/users'' (no_mutation_options\<lparr>optimistic := Some set_K_to_X\<rparr>)"

definition kernel_with_K :: "nat Kernel" where
  "kernel_with_K =
     \<lparr>ctx_cache = Some (cm_set 0 ''K'' (Val 1) (no_options :: (nat, unit) QueryOptions) CacheManager_new),
      ctx_stateManager = Some StateManager_new,
      kernel_config = \<lparr>baseUrl = Some ''https://api.com'', timeout = None\<rparr>\<rparr>"

definition kernel_without_K :: "nat Kernel" where
  "kernel_without_K = Client_kernel \<lparr>baseUrl = Some ''https://api.com'', timeout = None\<rparr>"

definition cached :: "int \<Rightarrow> string \<Rightarrow> 'a Kernel \<Rightarrow> 'a jsval" where
  "cached now key k = (case ctx_cache k of None \<Rightarrow> Undefined | Some c \<Rightarrow> fst (cm_get now key c))"


lemmas mutate_unfold =
  mutate_def mu_transition_def transition_with_def isValidTransition_def record_transition_def
  setMutationState_def transition_def mutate_try_def mutate_prepare_def
  executeMutation_def mutate_catch_def rollback_def call_optional_def mutate_finally_def
  MutationInstance_new_def no_mutation_options_def StateMachine_new_def StateManager_new_def
  Client_kernel_def CacheManager_new_def cm_set_def cm_get_def isStale_def Map_get_def
  no_options_def Let_def

text \<open>
  Claim C1 does not hold of the code. The network write fails with "Network error" and
  \<open>mutate\<close> rejects with that error. \<open>rollback\<close> only emits \<open>'mutation:rollback'\<close>, which
  has no handler, so afterwards the key K still holds the optimistic value 2: not the value
  1 it had before the mutation, and not absent where it was absent before.
\<close>

theorem failed_mutation_keeps_optimistic_value:
  "fst (mutate RegExp_test 10 (Inl (Error_new ''Network error'')) variables optimistic_mutation kernel_with_K)
     = Inl (Error_new ''Network error'')
   \<and> cached 10 ''K'' kernel_with_K = Val 1
   \<and> cached 10 ''K''
        (snd (snd (mutate RegExp_test 10 (Inl (Error_new ''Network error'')) variables
                     optimistic_mutation kernel_with_K))) = Val 2
   \<and> fst (mutate RegExp_test 10 (Inl (Error_new ''Network error'')) variables optimistic_mutation kernel_without_K)
     = Inl (Error_new ''Network error'')
   \<and> cached 10 ''K'' kernel_without_K = Undefined
   \<and> cached 10 ''K''
        (snd (snd (mutate RegExp_test 10 (Inl (Error_new ''Network error'')) variables
                     optimistic_mutation kernel_without_K))) = Val 2"
  by (simp add: mutate_unfold optimistic_mutation_def set_K_to_X_def kernel_with_K_def
      kernel_without_K_def cached_def)

end
